theory Spec2Isabelle
  imports
    Complex_Main
    "HOL-Library.Multiset"
    "HOL-Library.List_Lexorder"
    "HOL-Library.Char_ord"
    "HOL-Library.Product_Lexorder"
begin

section \<open>Calendar dates and their ISO-8601 text\<close>

text \<open>
  Both scripts read the entry date from \<^verbatim>\<open>st.date_input\<close>, which yields a Python
  \<^verbatim>\<open>datetime.date\<close>: a year between 1 and 9999, a month between 1 and 12 and a day that
  exists in that month. Python compares two dates as the tuples (year, month, day).
\<close>

record date =
  year :: nat
  month :: nat
  day :: nat

definition is_leap :: "nat \<Rightarrow> bool" where
  "is_leap y \<longleftrightarrow> y mod 4 = 0 \<and> (y mod 100 \<noteq> 0 \<or> y mod 400 = 0)"

definition days_in_month :: "nat \<Rightarrow> nat \<Rightarrow> nat" where
  "days_in_month y m =
     (if m = 2 then (if is_leap y then 29 else 28)
      else if m = 4 \<or> m = 6 \<or> m = 9 \<or> m = 11 then 30 else 31)"

definition valid_date :: "date \<Rightarrow> bool" where
  "valid_date d \<longleftrightarrow>
     1 \<le> year d \<and> year d \<le> 9999 \<and> 1 \<le> month d \<and> month d \<le> 12 \<and>
     1 \<le> day d \<and> day d \<le> days_in_month (year d) (month d)"

definition date_key :: "date \<Rightarrow> nat \<times> nat \<times> nat" where
  "date_key d = (year d, month d, day d)"


text \<open>
  \<^verbatim>\<open>entry_date.isoformat()\<close> is \<^verbatim>\<open>"%04d-%02d-%02d" % (year, month, day)\<close>:
  each number in decimal, padded with zeros on the left up to the given width.
\<close>

definition digit_char :: "nat \<Rightarrow> char" where
  "digit_char n = char_of (48 + n)"

function dec :: "nat \<Rightarrow> string" where
  "dec n = (if n < 10 then [digit_char n] else dec (n div 10) @ [digit_char (n mod 10)])"
  by pat_completeness auto
termination
  by (relation "measure (\<lambda>n. n)") auto

declare dec.simps [simp del]

definition zero_pad :: "nat \<Rightarrow> nat \<Rightarrow> string" where
  "zero_pad w n = replicate (w - length (dec n)) (CHR ''0'') @ dec n"

definition isoformat :: "date \<Rightarrow> string" where
  "isoformat d =
     zero_pad 4 (year d) @ ''-'' @ zero_pad 2 (month d) @ ''-'' @ zero_pad 2 (day d)"

text \<open>
  For a number below \<open>10 ^ w\<close> the padded text has exactly \<open>w\<close> digits, the last one
  the number modulo ten. \<open>fixed_width\<close> writes that reading down; it is used to reason
  about \<open>zero_pad\<close>, which is shown equal to it on such numbers.
\<close>

primrec fixed_width :: "nat \<Rightarrow> nat \<Rightarrow> string" where
  "fixed_width 0 n = []"
| "fixed_width (Suc w) n = fixed_width w (n div 10) @ [digit_char (n mod 10)]"

text \<open>
  \<^verbatim>\<open>pd.to_datetime\<close> on the date column, restricted to the texts the program stores:
  ten characters \<^verbatim>\<open>YYYY-MM-DD\<close> naming a date that exists. Any other text is a
  failure of the conversion (\<open>None\<close>).
\<close>

definition digit_val :: "char \<Rightarrow> nat option" where
  "digit_val c =
     (let k = (of_char c :: nat) in if 48 \<le> k \<and> k \<le> 57 then Some (k - 48) else None)"

fun parse_nat_acc :: "nat \<Rightarrow> string \<Rightarrow> nat option" where
  "parse_nat_acc acc [] = Some acc"
| "parse_nat_acc acc (c # cs) =
     (case digit_val c of None \<Rightarrow> None | Some v \<Rightarrow> parse_nat_acc (10 * acc + v) cs)"

definition parse_nat :: "string \<Rightarrow> nat option" where
  "parse_nat s = (if s = [] then None else parse_nat_acc 0 s)"

definition to_datetime :: "string \<Rightarrow> date option" where
  "to_datetime s =
     (if length s = 10 \<and> s ! 4 = CHR ''-'' \<and> s ! 7 = CHR ''-'' then
        (case parse_nat (take 4 s) of None \<Rightarrow> None | Some y \<Rightarrow>
         case parse_nat (take 2 (drop 5 s)) of None \<Rightarrow> None | Some m \<Rightarrow>
         case parse_nat (drop 8 s) of None \<Rightarrow> None | Some dd \<Rightarrow>
           (let d = \<lparr>year = y, month = m, day = dd\<rparr>
            in if valid_date d then Some d else None))
      else None)"

section \<open>health\_tracker.py: the SQLite file\<close>

text \<open>
  The two tables of \<^verbatim>\<open>init_db\<close>. A nullable column is an option; \<^verbatim>\<open>body_fat REAL\<close>
  and \<^verbatim>\<open>weight REAL\<close> hold Python floats, idealised here as real numbers. A table
  carries its AUTOINCREMENT counter (the row of \<^verbatim>\<open>sqlite_sequence\<close>); a table that was
  never created is \<open>None\<close>.
\<close>

record weight_row =
  w_id :: nat
  w_date :: string
  w_weight :: real
  w_body_fat :: "real option"
  w_notes :: "string option"

record bp_row =
  b_id :: nat
  b_date :: string
  b_systolic :: int
  b_diastolic :: int
  b_notes :: "string option"

record 'r table =
  rows :: "'r list"
  seq :: nat

record database =
  weights :: "weight_row table option"
  blood_pressure :: "bp_row table option"

definition no_file :: database where
  "no_file = \<lparr>weights = None, blood_pressure = None\<rparr>"

datatype error = OperationalError | ValueError

text \<open>
  A connection works on a copy of the file; \<^verbatim>\<open>commit\<close> writes the copy to the file and
  \<^verbatim>\<open>close\<close> drops whatever was not committed. What a later process sees is the file.
\<close>

record connection =
  disk :: database
  pending :: database

definition connect :: "database \<Rightarrow> connection" where
  "connect db = \<lparr>disk = db, pending = db\<rparr>"

definition commit :: "connection \<Rightarrow> connection" where
  "commit c = c\<lparr>disk := pending c\<rparr>"

definition close :: "connection \<Rightarrow> database" where
  "close c = disk c"

definition create_table_if_not_exists :: "'r table option \<Rightarrow> 'r table option" where
  "create_table_if_not_exists t =
     (case t of None \<Rightarrow> Some \<lparr>rows = [], seq = 0\<rparr> | Some x \<Rightarrow> Some x)"

definition init_db :: "database \<Rightarrow> database" where
  "init_db db =
     (let conn = connect db;
          conn = conn\<lparr>pending := (pending conn)
                   \<lparr>weights := create_table_if_not_exists (weights (pending conn))\<rparr>\<rparr>;
          conn = conn\<lparr>pending := (pending conn)
                   \<lparr>blood_pressure := create_table_if_not_exists (blood_pressure (pending conn))\<rparr>\<rparr>;
          conn = commit conn
      in close conn)"

text \<open>
  An AUTOINCREMENT key is one more than the largest key the table ever held.
\<close>

definition next_weight_id :: "weight_row table \<Rightarrow> nat" where
  "next_weight_id t = Suc (fold max (map w_id (rows t)) (seq t))"

definition next_bp_id :: "bp_row table \<Rightarrow> nat" where
  "next_bp_id t = Suc (fold max (map b_id (rows t)) (seq t))"

definition insert_weight ::
  "string \<Rightarrow> real \<Rightarrow> real option \<Rightarrow> string option \<Rightarrow> database \<Rightarrow> error + database" where
  "insert_weight entry_date weight body_fat notes db =
     (let conn = connect db in
      case weights (pending conn) of
        None \<Rightarrow> Inl OperationalError
      | Some t \<Rightarrow>
          (let k = next_weight_id t;
               r = \<lparr>w_id = k, w_date = entry_date, w_weight = weight,
                    w_body_fat = body_fat, w_notes = notes\<rparr>;
               conn = conn\<lparr>pending := (pending conn)
                        \<lparr>weights := Some \<lparr>rows = rows t @ [r], seq = k\<rparr>\<rparr>\<rparr>;
               conn = commit conn
           in Inr (close conn)))"

definition insert_bp ::
  "string \<Rightarrow> int \<Rightarrow> int \<Rightarrow> string option \<Rightarrow> database \<Rightarrow> error + database" where
  "insert_bp entry_date systolic diastolic notes db =
     (let conn = connect db in
      case blood_pressure (pending conn) of
        None \<Rightarrow> Inl OperationalError
      | Some t \<Rightarrow>
          (let k = next_bp_id t;
               r = \<lparr>b_id = k, b_date = entry_date, b_systolic = systolic,
                    b_diastolic = diastolic, b_notes = notes\<rparr>;
               conn = conn\<lparr>pending := (pending conn)
                        \<lparr>blood_pressure := Some \<lparr>rows = rows t @ [r], seq = k\<rparr>\<rparr>\<rparr>;
               conn = commit conn
           in Inr (close conn)))"

text \<open>
  \<^verbatim>\<open>SELECT * FROM t ORDER BY date ASC\<close> is answered by the SQL engine, which is not
  part of the program. It is a parameter \<open>eng\<close>: a function that, given the sort key,
  arranges the rows. What SQL promises of every engine is \<open>order_by_spec\<close>: the same
  rows, keys ascending. SQLite, on which the program runs, is \<open>stable_engine\<close> below.
\<close>

type_synonym ('r, 'k) order_by = "('r \<Rightarrow> 'k) \<Rightarrow> 'r list \<Rightarrow> 'r list"


definition load_weights ::
  "(weight_row, string) order_by \<Rightarrow> database \<Rightarrow> error + weight_row list" where
  "load_weights eng db =
     (case weights db of
        None \<Rightarrow> Inl OperationalError
      | Some t \<Rightarrow> Inr (eng w_date (rows t)))"

definition load_bp ::
  "(bp_row, string) order_by \<Rightarrow> database \<Rightarrow> error + bp_row list" where
  "load_bp eng db =
     (case blood_pressure db of
        None \<Rightarrow> Inl OperationalError
      | Some t \<Rightarrow> Inr (eng b_date (rows t)))"

section \<open>health\_tracker.py: the entry forms\<close>

text \<open>
  The widgets of a form and what they return: \<^verbatim>\<open>st.date_input\<close> a date,
  \<^verbatim>\<open>st.number_input\<close> a number, \<^verbatim>\<open>st.text_area\<close> a string (the empty string when
  nothing was typed), \<^verbatim>\<open>st.button\<close> whether it was pressed in this run.
\<close>

record weight_inputs =
  wi_entry_date :: date
  wi_weight :: real
  wi_bodyfat :: real
  wi_notes :: string
  wi_add_button :: bool

record bp_inputs =
  bi_entry_date :: date
  bi_systolic :: int
  bi_diastolic :: int
  bi_notes :: string
  bi_add_bp_button :: bool

datatype message = Success | Warning

definition weight_form ::
  "weight_inputs \<Rightarrow> database \<Rightarrow> error + (database \<times> message option)" where
  "weight_form inp db =
     (if wi_add_button inp \<and> wi_weight inp > 0 then
        (case insert_weight (isoformat (wi_entry_date inp)) (wi_weight inp)
                (if wi_bodyfat inp > 0 then Some (wi_bodyfat inp) else None)
                (Some (wi_notes inp)) db of
           Inl e \<Rightarrow> Inl e
         | Inr db' \<Rightarrow> Inr (db', Some Success))
      else if wi_add_button inp then Inr (db, Some Warning)
      else Inr (db, None))"

definition bp_form ::
  "bp_inputs \<Rightarrow> database \<Rightarrow> error + (database \<times> message option)" where
  "bp_form inp db =
     (if bi_add_bp_button inp \<and> bi_systolic inp > 0 \<and> bi_diastolic inp > 0 then
        (case insert_bp (isoformat (bi_entry_date inp)) (bi_systolic inp) (bi_diastolic inp)
                (Some (bi_notes inp)) db of
           Inl e \<Rightarrow> Inl e
         | Inr db' \<Rightarrow> Inr (db', Some Success))
      else if bi_add_bp_button inp then Inr (db, Some Warning)
      else Inr (db, None))"

section \<open>health\_tracker.py: what a page shows\<close>

text \<open>
  A pandas column of numbers, with NaN as \<open>None\<close>. \<^verbatim>\<open>Series.min()\<close> and
  \<^verbatim>\<open>Series.max()\<close> skip NaN and are NaN when nothing is left; a comparison with NaN
  is false; arithmetic on NaN is NaN.
\<close>

definition dropna :: "'a option list \<Rightarrow> 'a list" where
  "dropna xs = concat (map (\<lambda>x. case x of None \<Rightarrow> [] | Some v \<Rightarrow> [v]) xs)"

definition series_min :: "('a::linorder) option list \<Rightarrow> 'a option" where
  "series_min xs = (case dropna xs of [] \<Rightarrow> None | y # ys \<Rightarrow> Some (fold min ys y))"

definition series_max :: "('a::linorder) option list \<Rightarrow> 'a option" where
  "series_max xs = (case dropna xs of [] \<Rightarrow> None | y # ys \<Rightarrow> Some (fold max ys y))"

definition nan_less :: "('a::linorder) option \<Rightarrow> 'a \<Rightarrow> bool" where
  "nan_less a b = (case a of None \<Rightarrow> False | Some x \<Rightarrow> x < b)"

definition nan_plus :: "('a::plus) option \<Rightarrow> 'a \<Rightarrow> 'a option" where
  "nan_plus a b = map_option (\<lambda>x. x + b) a"

definition nan_minus :: "('a::minus) option \<Rightarrow> 'a \<Rightarrow> 'a option" where
  "nan_minus a b = map_option (\<lambda>x. x - b) a"

text \<open>
  The frame after \<^verbatim>\<open>pd.to_datetime\<close> on the date column and the renaming of the
  columns. The conversion fails as a whole when one text is not a date.
\<close>

record weight_rec =
  r_id :: nat
  r_Date :: date
  r_Weight :: real
  r_BodyFat :: "real option"
  r_Notes :: "string option"

record bp_rec =
  p_id :: nat
  p_Date :: date
  p_Systolic :: int
  p_Diastolic :: int
  p_Notes :: "string option"

definition weight_frame :: "weight_row list \<Rightarrow> error + weight_rec list" where
  "weight_frame data =
     (case those (map (\<lambda>r. to_datetime (w_date r)) data) of
        None \<Rightarrow> Inl ValueError
      | Some ds \<Rightarrow>
          Inr (map (\<lambda>(r, d). \<lparr>r_id = w_id r, r_Date = d, r_Weight = w_weight r,
                               r_BodyFat = w_body_fat r, r_Notes = w_notes r\<rparr>) (zip data ds)))"

definition bp_frame :: "bp_row list \<Rightarrow> error + bp_rec list" where
  "bp_frame data =
     (case those (map (\<lambda>r. to_datetime (b_date r)) data) of
        None \<Rightarrow> Inl ValueError
      | Some ds \<Rightarrow>
          Inr (map (\<lambda>(r, d). \<lparr>p_id = b_id r, p_Date = d, p_Systolic = b_systolic r,
                               p_Diastolic = b_diastolic r, p_Notes = b_notes r\<rparr>) (zip data ds)))"

definition weights_columns :: "string list" where
  "weights_columns = [''id'', ''date'', ''weight'', ''body_fat'', ''notes'']"

definition blood_pressure_columns :: "string list" where
  "blood_pressure_columns = [''id'', ''date'', ''systolic'', ''diastolic'', ''notes'']"

definition rename :: "(string \<times> string) list \<Rightarrow> string list \<Rightarrow> string list" where
  "rename m cols = map (\<lambda>c. case map_of m c of None \<Rightarrow> c | Some c' \<Rightarrow> c') cols"

definition weight_frame_columns :: "string list" where
  "weight_frame_columns =
     rename [(''date'', ''Date''), (''weight'', ''Weight''), (''body_fat'', ''Body Fat %''),
             (''notes'', ''Notes'')] weights_columns"

definition bp_frame_columns :: "string list" where
  "bp_frame_columns =
     rename [(''date'', ''Date''), (''systolic'', ''Systolic''), (''diastolic'', ''Diastolic''),
             (''notes'', ''Notes'')] blood_pressure_columns"


definition bp_table_columns :: "string list" where
  "bp_table_columns = [''Date'', ''Systolic'', ''Diastolic'', ''Notes'']"

text \<open>
  \<^verbatim>\<open>to_csv(index=False)\<close>: one line with the names of the frame's columns, joined by
  commas, then one line for each row of the frame, in the frame's order. The text of a
  cell (how a float or a date is printed, quoting) is left out: a line is kept as its
  list of cells.
\<close>

datatype cell = IntCell int | FloatCell "real option" | DateCell date | TextCell "string option"

record csv_file =
  csv_header :: string
  csv_lines :: "cell list list"

fun join_commas :: "string list \<Rightarrow> string" where
  "join_commas [] = []"
| "join_commas [c] = c"
| "join_commas (c # cs) = c @ '','' @ join_commas cs"

definition to_csv :: "string list \<Rightarrow> cell list list \<Rightarrow> csv_file" where
  "to_csv cols ls = \<lparr>csv_header = join_commas cols, csv_lines = ls\<rparr>"

definition weight_cells :: "weight_rec \<Rightarrow> cell list" where
  "weight_cells r =
     [IntCell (int (r_id r)), DateCell (r_Date r), FloatCell (Some (r_Weight r)),
      FloatCell (r_BodyFat r), TextCell (r_Notes r)]"

definition bp_cells :: "bp_rec \<Rightarrow> cell list" where
  "bp_cells r =
     [IntCell (int (p_id r)), DateCell (p_Date r), IntCell (p_Systolic r),
      IntCell (p_Diastolic r), TextCell (p_Notes r)]"

text \<open>
  The axis ranges of the three charts. The targets are local constants of the script;
  they are arguments here and the page passes the script's values.
\<close>

definition weight_yaxis_range :: "real \<Rightarrow> weight_rec list \<Rightarrow> real option \<times> real option" where
  "weight_yaxis_range targetWeight data =
     (let col = map (\<lambda>r. Some (r_Weight r)) data;
          minWeight = (if nan_less (series_min col) targetWeight then series_min col
                       else Some targetWeight);
          maxWeight = series_max col
      in (nan_minus minWeight 10, nan_plus maxWeight 10))"

definition bodyfat_yaxis_range ::
  "real \<Rightarrow> real \<Rightarrow> weight_rec list \<Rightarrow> real option \<times> real option" where
  "bodyfat_yaxis_range minTargetBodyFat maxTargetBodyFat data =
     (let col = map r_BodyFat data;
          minBodyFat = (if nan_less (series_min col) minTargetBodyFat then series_min col
                        else Some minTargetBodyFat);
          maxBodyFat = series_max col
      in (nan_minus minBodyFat 5, nan_plus maxBodyFat 5))"

definition pressure_yaxis_range ::
  "int \<Rightarrow> int \<Rightarrow> int \<Rightarrow> int \<Rightarrow> bp_rec list \<Rightarrow> int option \<times> int option" where
  "pressure_yaxis_range minTargetSystolic maxTargetSystolic minTargetDiastolic
       maxTargetDiastolic data_bp =
     (let sys = map (\<lambda>r. Some (p_Systolic r)) data_bp;
          dia = map (\<lambda>r. Some (p_Diastolic r)) data_bp;
          minSystolic = series_min sys;
          maxSystolic = series_max sys;
          minDiastolic = (if nan_less (series_min dia) minTargetDiastolic then series_min dia
                          else Some minTargetDiastolic);
          maxDiastolic = series_max dia
      in (nan_minus minDiastolic 5, nan_plus maxSystolic 10))"

record weight_view =
  wv_weight_range :: "real option \<times> real option"
  wv_bodyfat_range :: "real option \<times> real option"
  wv_csv :: csv_file

record bp_view =
  bv_pressure_range :: "int option \<times> int option"
  bv_csv :: csv_file

datatype 'v page = NoData | Shown 'v

definition weight_display :: "weight_row list \<Rightarrow> error + weight_view page" where
  "weight_display loaded =
     (if loaded = [] then Inr NoData
      else case weight_frame loaded of
        Inl e \<Rightarrow> Inl e
      | Inr data \<Rightarrow>
          Inr (Shown \<lparr>wv_weight_range = weight_yaxis_range 100 data,
                       wv_bodyfat_range = bodyfat_yaxis_range 11 20 data,
                       wv_csv = to_csv weight_frame_columns (map weight_cells data)\<rparr>))"

definition bp_display :: "bp_row list \<Rightarrow> error + bp_view page" where
  "bp_display loaded =
     (if loaded = [] then Inr NoData
      else case bp_frame loaded of
        Inl e \<Rightarrow> Inl e
      | Inr data_bp \<Rightarrow>
          Inr (Shown \<lparr>bv_pressure_range = pressure_yaxis_range 100 120 60 80 data_bp,
                       bv_csv = to_csv bp_frame_columns (map bp_cells data_bp)\<rparr>))"

text \<open>
  One run of the script with a section chosen: \<^verbatim>\<open>init_db()\<close>, the form, the load, the
  page. It returns the file it leaves behind, the message of the form and the page.
\<close>

definition weight_section ::
  "(weight_row, string) order_by \<Rightarrow> weight_inputs \<Rightarrow> database \<Rightarrow>
     error + (database \<times> message option \<times> weight_view page)" where
  "weight_section eng inp file =
     (case weight_form inp (init_db file) of
        Inl e \<Rightarrow> Inl e
      | Inr (db, msg) \<Rightarrow>
          (case load_weights eng db of
             Inl e \<Rightarrow> Inl e
           | Inr loaded \<Rightarrow>
               (case weight_display loaded of
                  Inl e \<Rightarrow> Inl e
                | Inr pg \<Rightarrow> Inr (db, msg, pg))))"

definition bp_section ::
  "(bp_row, string) order_by \<Rightarrow> bp_inputs \<Rightarrow> database \<Rightarrow>
     error + (database \<times> message option \<times> bp_view page)" where
  "bp_section eng inp file =
     (case bp_form inp (init_db file) of
        Inl e \<Rightarrow> Inl e
      | Inr (db, msg) \<Rightarrow>
          (case load_bp eng db of
             Inl e \<Rightarrow> Inl e
           | Inr loaded \<Rightarrow>
               (case bp_display loaded of
                  Inl e \<Rightarrow> Inl e
                | Inr pg \<Rightarrow> Inr (db, msg, pg))))"

section \<open>weight\_tracker.py: the session log\<close>

text \<open>
  The prototype keeps its log in \<^verbatim>\<open>st.session_state\<close>, which a restart of the
  application empties: the key \<^verbatim>\<open>weight_log\<close> is then missing (\<open>None\<close>) and the
  script starts from an empty frame.
\<close>

record log_row =
  l_Date :: date
  l_Weight :: real
  l_BodyFat :: "real option"
  l_Notes :: "string option"

type_synonym session_state = "log_row list option"

definition restart :: "session_state \<Rightarrow> session_state" where
  "restart ss = None"

text \<open>
  \<^verbatim>\<open>rolling(window).mean()\<close> as pandas computes it for a fixed window, with
  \<^verbatim>\<open>min_periods\<close> equal to the window: a running count and sum, the value leaving the
  window removed and the value entering it added, and a mean reported once the count
  reaches \<^verbatim>\<open>min_periods\<close>.
\<close>

record roll_state =
  nobs :: nat
  sum_x :: real

definition add_mean :: "real \<Rightarrow> roll_state \<Rightarrow> roll_state" where
  "add_mean v s = \<lparr>nobs = nobs s + 1, sum_x = sum_x s + v\<rparr>"

definition remove_mean :: "real \<Rightarrow> roll_state \<Rightarrow> roll_state" where
  "remove_mean v s = \<lparr>nobs = nobs s - 1, sum_x = sum_x s - v\<rparr>"

definition calc_mean :: "nat \<Rightarrow> roll_state \<Rightarrow> real option" where
  "calc_mean minp s =
     (if nobs s \<ge> minp \<and> nobs s > 0 then Some (sum_x s / real (nobs s)) else None)"

definition roll_step ::
  "nat \<Rightarrow> nat \<Rightarrow> real list \<Rightarrow> roll_state \<times> real option list \<Rightarrow> nat \<Rightarrow>
     roll_state \<times> real option list" where
  "roll_step win minp xs acc i =
     (let s = fst acc;
          s = (if i \<ge> win then remove_mean (xs ! (i - win)) s else s);
          s = add_mean (xs ! i) s
      in (s, snd acc @ [calc_mean minp s]))"

definition rolling_mean :: "nat \<Rightarrow> real list \<Rightarrow> real option list" where
  "rolling_mean win xs =
     snd (foldl (roll_step win win xs) (\<lparr>nobs = 0, sum_x = 0\<rparr>, []) [0..<length xs])"

record trend_rec =
  t_Date :: date
  t_Weight :: real
  t_BodyFat :: "real option"
  t_Notes :: "string option"
  t_Trend :: "real option"

definition log_columns :: "string list" where
  "log_columns = [''Date'', ''Weight'', ''Body Fat %'', ''Notes'']"

definition trend_cells :: "trend_rec \<Rightarrow> cell list" where
  "trend_cells r =
     [DateCell (t_Date r), FloatCell (Some (t_Weight r)), FloatCell (t_BodyFat r),
      TextCell (t_Notes r), FloatCell (t_Trend r)]"

definition with_trend :: "log_row list \<Rightarrow> trend_rec list" where
  "with_trend data =
     map (\<lambda>(r, t). \<lparr>t_Date = l_Date r, t_Weight = l_Weight r, t_BodyFat = l_BodyFat r,
                     t_Notes = l_Notes r, t_Trend = t\<rparr>)
       (zip data (rolling_mean 3 (map l_Weight data)))"

record tracker_view =
  tv_data :: "trend_rec list"
  tv_csv :: csv_file

definition log_form :: "weight_inputs \<Rightarrow> log_row list \<Rightarrow> log_row list \<times> message option" where
  "log_form inp lg =
     (if wi_add_button inp \<and> wi_weight inp > 0 then
        (lg @ [\<lparr>l_Date = wi_entry_date inp, l_Weight = wi_weight inp,
                 l_BodyFat = (if wi_bodyfat inp > 0 then Some (wi_bodyfat inp) else None),
                 l_Notes = Some (wi_notes inp)\<rparr>], Some Success)
      else if wi_add_button inp then (lg, Some Warning)
      else (lg, None))"

definition tracker_display :: "log_row list \<Rightarrow> tracker_view page" where
  "tracker_display data =
     (if data = [] then NoData
      else Shown \<lparr>tv_data = with_trend data,
                  tv_csv = to_csv (log_columns @ [''Trend'']) (map trend_cells (with_trend data))\<rparr>)"

definition weight_tracker ::
  "(log_row, nat \<times> nat \<times> nat) order_by \<Rightarrow> weight_inputs \<Rightarrow> session_state \<Rightarrow>
     session_state \<times> message option \<times> tracker_view page" where
  "weight_tracker sort_values inp ss =
     (let lg = (case ss of None \<Rightarrow> [] | Some l \<Rightarrow> l);
          (lg, msg) = log_form inp lg;
          data = sort_values (\<lambda>r. date_key (l_Date r)) lg
      in (Some lg, msg, tracker_display data))"

section \<open>Sequences of runs\<close>

text \<open>
  Every interaction reruns the script from the top. For health\_tracker.py a run is
  \<^verbatim>\<open>init_db()\<close> followed by the form of the chosen section; the load and the page that
  follow write nothing, so the file a run leaves is the one the form leaves. For the
  prototype the session state is handed from one run to the next.
\<close>

datatype run = WeightRun weight_inputs | BpRun bp_inputs

definition run_script :: "run \<Rightarrow> database \<Rightarrow> error + database" where
  "run_script r file =
     (case r of
        WeightRun inp \<Rightarrow>
          (case weight_form inp (init_db file) of Inl e \<Rightarrow> Inl e | Inr (db, msg) \<Rightarrow> Inr db)
      | BpRun inp \<Rightarrow>
          (case bp_form inp (init_db file) of Inl e \<Rightarrow> Inl e | Inr (db, msg) \<Rightarrow> Inr db))"

fun run_scripts :: "run list \<Rightarrow> database \<Rightarrow> error + database" where
  "run_scripts [] file = Inr file"
| "run_scripts (r # rs) file =
     (case run_script r file of Inl e \<Rightarrow> Inl e | Inr db \<Rightarrow> run_scripts rs db)"


fun tracker_runs ::
  "(log_row, nat \<times> nat \<times> nat) order_by \<Rightarrow> weight_inputs list \<Rightarrow> session_state \<Rightarrow>
     session_state" where
  "tracker_runs sort_values [] ss = ss"
| "tracker_runs sort_values (inp # inps) ss =
     tracker_runs sort_values inps (fst (weight_tracker sort_values inp ss))"

text \<open>
  The engine the program runs on. SQLite reads the table in the order of its keys, which
  is the order of insertion, and its sorter leaves rows of equal sort key in the order in
  which it read them: a stable sort on the key.
\<close>

definition stable_engine :: "('r, 'k::linorder) order_by" where
  "stable_engine key rs = sort_key key rs"

section \<open>Facts about the store\<close>

lemma create_table_if_not_exists_Some [simp]:
  "create_table_if_not_exists (Some t) = Some t"
  by (simp add: create_table_if_not_exists_def)

lemma create_table_if_not_exists_None [simp]:
  "create_table_if_not_exists None = Some \<lparr>rows = [], seq = 0\<rparr>"
  by (simp add: create_table_if_not_exists_def)

lemma init_db_tables:
  "weights (init_db db) = create_table_if_not_exists (weights db)"
  "blood_pressure (init_db db) = create_table_if_not_exists (blood_pressure db)"
  by (simp_all add: init_db_def connect_def commit_def close_def Let_def)

lemma init_db_existing:
  "weights db = Some tw \<Longrightarrow> blood_pressure db = Some tb \<Longrightarrow> init_db db = db"
  by (simp add: init_db_def connect_def commit_def close_def Let_def)

lemma init_db_idem: "init_db (init_db db) = init_db db"
  by (cases "weights db"; cases "blood_pressure db")
     (simp_all add: init_db_def connect_def commit_def close_def Let_def)

lemma insert_weight_Some:
  "weights db = Some t \<Longrightarrow>
   insert_weight d w bf n db =
     Inr (db\<lparr>weights := Some \<lparr>rows = rows t @ [\<lparr>w_id = next_weight_id t, w_date = d,
            w_weight = w, w_body_fat = bf, w_notes = n\<rparr>], seq = next_weight_id t\<rparr>\<rparr>)"
  by (simp add: insert_weight_def connect_def commit_def close_def Let_def)

lemma insert_bp_Some:
  "blood_pressure db = Some t \<Longrightarrow>
   insert_bp d s di n db =
     Inr (db\<lparr>blood_pressure := Some \<lparr>rows = rows t @ [\<lparr>b_id = next_bp_id t, b_date = d,
            b_systolic = s, b_diastolic = di, b_notes = n\<rparr>], seq = next_bp_id t\<rparr>\<rparr>)"
  by (simp add: insert_bp_def connect_def commit_def close_def Let_def)

lemma weight_form_accept:
  assumes "wi_add_button inp" and "wi_weight inp > 0" and "weights db = Some t"
  shows "weight_form inp db =
           Inr (db\<lparr>weights := Some \<lparr>rows = rows t @
                  [\<lparr>w_id = next_weight_id t, w_date = isoformat (wi_entry_date inp),
                    w_weight = wi_weight inp,
                    w_body_fat = (if wi_bodyfat inp > 0 then Some (wi_bodyfat inp) else None),
                    w_notes = Some (wi_notes inp)\<rparr>], seq = next_weight_id t\<rparr>\<rparr>, Some Success)"
  using assms by (simp add: weight_form_def insert_weight_Some)

lemma weight_form_reject:
  "wi_add_button inp \<Longrightarrow> \<not> wi_weight inp > 0 \<Longrightarrow> weight_form inp db = Inr (db, Some Warning)"
  by (simp add: weight_form_def)

lemma weight_form_idle:
  "\<not> wi_add_button inp \<Longrightarrow> weight_form inp db = Inr (db, None)"
  by (simp add: weight_form_def)

lemma bp_form_accept:
  assumes "bi_add_bp_button inp" and "bi_systolic inp > 0" and "bi_diastolic inp > 0"
    and "blood_pressure db = Some t"
  shows "bp_form inp db =
           Inr (db\<lparr>blood_pressure := Some \<lparr>rows = rows t @
                  [\<lparr>b_id = next_bp_id t, b_date = isoformat (bi_entry_date inp),
                    b_systolic = bi_systolic inp, b_diastolic = bi_diastolic inp,
                    b_notes = Some (bi_notes inp)\<rparr>], seq = next_bp_id t\<rparr>\<rparr>, Some Success)"
  using assms by (simp add: bp_form_def insert_bp_Some)

lemma bp_form_reject:
  "\<not> (bi_add_bp_button inp \<and> bi_systolic inp > 0 \<and> bi_diastolic inp > 0) \<Longrightarrow>
     bp_form inp db = Inr (db, if bi_add_bp_button inp then Some Warning else None)"
  by (auto simp add: bp_form_def)

section \<open>Facts about columns and frames\<close>

lemma dropna_Some: "dropna (map (\<lambda>r. Some (f r)) xs) = map f xs"
  by (induction xs) (simp_all add: dropna_def)

lemma dropna_None: "\<forall>x\<in>set xs. x = None \<Longrightarrow> dropna xs = []"
  by (induction xs) (simp_all add: dropna_def)

lemma series_min_Some:
  assumes "xs \<noteq> []"
  shows "series_min (map (\<lambda>r. Some (f r)) xs) = Some (Min (set (map f xs)))"
proof (cases xs)
  case Nil
  then show ?thesis using assms by simp
next
  case (Cons a list)
  have "dropna (map (\<lambda>r. Some (f r)) xs) = f a # map f list"
    unfolding dropna_Some using Cons by simp
  then have "series_min (map (\<lambda>r. Some (f r)) xs) = Some (fold min (map f list) (f a))"
    by (simp add: series_min_def)
  also have "fold min (map f list) (f a) = Min (set (f a # map f list))"
    by (rule Min.set_eq_fold [symmetric])
  finally show ?thesis using Cons by simp
qed

lemma series_max_Some:
  assumes "xs \<noteq> []"
  shows "series_max (map (\<lambda>r. Some (f r)) xs) = Some (Max (set (map f xs)))"
proof (cases xs)
  case Nil
  then show ?thesis using assms by simp
next
  case (Cons a list)
  have "dropna (map (\<lambda>r. Some (f r)) xs) = f a # map f list"
    unfolding dropna_Some using Cons by simp
  then have "series_max (map (\<lambda>r. Some (f r)) xs) = Some (fold max (map f list) (f a))"
    by (simp add: series_max_def)
  also have "fold max (map f list) (f a) = Max (set (f a # map f list))"
    by (rule Max.set_eq_fold [symmetric])
  finally show ?thesis using Cons by simp
qed

lemma those_Some: "those xs = Some ys \<Longrightarrow> xs = map Some ys"
  by (induction xs arbitrary: ys) (auto split: option.splits)

lemma those_map_Some: "those (map Some ys) = Some ys"
  by (induction ys) simp_all

lemma weight_zip:
  assumes "length xs = length ds"
  defines "data \<equiv> map (\<lambda>(r, d). \<lparr>r_id = w_id r, r_Date = d, r_Weight = w_weight r,
                               r_BodyFat = w_body_fat r, r_Notes = w_notes r\<rparr>) (zip xs ds)"
  shows "map r_Weight data = map w_weight xs \<and> map r_BodyFat data = map w_body_fat xs \<and>
         map r_Notes data = map w_notes xs \<and> map r_id data = map w_id xs \<and>
         map r_Date data = ds"
  using assms(1) unfolding data_def by (induction xs ds rule: list_induct2) simp_all

lemma bp_zip:
  assumes "length xs = length ds"
  defines "data \<equiv> map (\<lambda>(r, d). \<lparr>p_id = b_id r, p_Date = d, p_Systolic = b_systolic r,
                               p_Diastolic = b_diastolic r, p_Notes = b_notes r\<rparr>) (zip xs ds)"
  shows "map p_Systolic data = map b_systolic xs \<and> map p_Diastolic data = map b_diastolic xs \<and>
         map p_Notes data = map b_notes xs \<and> map p_id data = map b_id xs \<and>
         map p_Date data = ds"
  using assms(1) unfolding data_def by (induction xs ds rule: list_induct2) simp_all

lemma weight_frame_Inr:
  assumes "weight_frame loaded = Inr data"
  shows "map r_Weight data = map w_weight loaded"
    and "map r_BodyFat data = map w_body_fat loaded"
    and "map r_Notes data = map w_notes loaded"
    and "map r_id data = map w_id loaded"
    and "map Some (map r_Date data) = map (\<lambda>r. to_datetime (w_date r)) loaded"
    and "length data = length loaded"
proof -
  from assms obtain ds where ds: "those (map (\<lambda>r. to_datetime (w_date r)) loaded) = Some ds"
    and data: "data = map (\<lambda>(r, d). \<lparr>r_id = w_id r, r_Date = d, r_Weight = w_weight r,
                               r_BodyFat = w_body_fat r, r_Notes = w_notes r\<rparr>) (zip loaded ds)"
    by (auto simp: weight_frame_def split: option.splits)
  from those_Some [OF ds] have eq: "map (\<lambda>r. to_datetime (w_date r)) loaded = map Some ds" .
  then have len: "length loaded = length ds"
    by (metis length_map)
  note z = weight_zip [OF len, folded data]
  show "map r_Weight data = map w_weight loaded" "map r_BodyFat data = map w_body_fat loaded"
    "map r_Notes data = map w_notes loaded" "map r_id data = map w_id loaded"
    using z by simp_all
  show "map Some (map r_Date data) = map (\<lambda>r. to_datetime (w_date r)) loaded"
    using z eq by simp
  show "length data = length loaded"
    unfolding data using len by simp
qed

lemma bp_frame_Inr:
  assumes "bp_frame loaded = Inr data"
  shows "map p_Systolic data = map b_systolic loaded"
    and "map p_Diastolic data = map b_diastolic loaded"
    and "map p_Notes data = map b_notes loaded"
    and "map p_id data = map b_id loaded"
    and "map Some (map p_Date data) = map (\<lambda>r. to_datetime (b_date r)) loaded"
    and "length data = length loaded"
proof -
  from assms obtain ds where ds: "those (map (\<lambda>r. to_datetime (b_date r)) loaded) = Some ds"
    and data: "data = map (\<lambda>(r, d). \<lparr>p_id = b_id r, p_Date = d, p_Systolic = b_systolic r,
                               p_Diastolic = b_diastolic r, p_Notes = b_notes r\<rparr>) (zip loaded ds)"
    by (auto simp: bp_frame_def split: option.splits)
  from those_Some [OF ds] have eq: "map (\<lambda>r. to_datetime (b_date r)) loaded = map Some ds" .
  then have len: "length loaded = length ds"
    by (metis length_map)
  note z = bp_zip [OF len, folded data]
  show "map p_Systolic data = map b_systolic loaded"
    "map p_Diastolic data = map b_diastolic loaded"
    "map p_Notes data = map b_notes loaded" "map p_id data = map b_id loaded"
    using z by simp_all
  show "map Some (map p_Date data) = map (\<lambda>r. to_datetime (b_date r)) loaded"
    using z eq by simp
  show "length data = length loaded"
    unfolding data using len by simp
qed

lemma weight_yaxis_range_eq:
  assumes "data \<noteq> []"
  shows "weight_yaxis_range 100 data =
           (Some (min (Min (set (map r_Weight data))) 100 - 10),
            Some (Max (set (map r_Weight data)) + 10))"
  using assms
  by (simp add: weight_yaxis_range_def series_min_Some series_max_Some nan_less_def
      nan_minus_def nan_plus_def min_def Let_def)

lemma pressure_yaxis_range_eq:
  assumes "data_bp \<noteq> []"
  shows "pressure_yaxis_range sMin sMax dMin dMax data_bp =
           (Some (min (Min (set (map p_Diastolic data_bp))) dMin - 5),
            Some (Max (set (map p_Systolic data_bp)) + 10))"
  using assms
  by (simp add: pressure_yaxis_range_def series_min_Some series_max_Some nan_less_def
      nan_minus_def nan_plus_def min_def Let_def)

lemma bodyfat_yaxis_range_all_null:
  assumes "\<forall>r\<in>set data. r_BodyFat r = None"
  shows "bodyfat_yaxis_range 11 20 data = (Some 6, None)"
proof -
  have "dropna (map r_BodyFat data) = []"
    using assms by (intro dropna_None) auto
  then show ?thesis
    by (simp add: bodyfat_yaxis_range_def series_min_def series_max_def nan_less_def
        nan_minus_def nan_plus_def Let_def)
qed

section \<open>Facts about dates and their text\<close>

lemma of_char_digit_char: "n < 10 \<Longrightarrow> of_char (digit_char n) = 48 + n"
  by (simp add: digit_char_def)


lemma digit_char_eq: "a < 10 \<Longrightarrow> b < 10 \<Longrightarrow> digit_char a = digit_char b \<longleftrightarrow> a = b"
  by (metis add_left_cancel of_char_digit_char)



lemma length_fixed_width [simp]: "length (fixed_width w n) = w"
  by (induction w arbitrary: n) simp_all















section \<open>Facts about sequences of runs\<close>

lemma weights_init_db:
  "weights (init_db db) = Some (case weights db of None \<Rightarrow> \<lparr>rows = [], seq = 0\<rparr> | Some t \<Rightarrow> t)"
  by (cases "weights db") (simp_all add: init_db_tables)

lemma blood_pressure_init_db:
  "blood_pressure (init_db db) =
     Some (case blood_pressure db of None \<Rightarrow> \<lparr>rows = [], seq = 0\<rparr> | Some t \<Rightarrow> t)"
  by (cases "blood_pressure db") (simp_all add: init_db_tables)

lemma run_script_weight:
  assumes "weights (init_db fl) = Some t"
  shows "run_script (WeightRun inp) fl =
           Inr (if wi_add_button inp \<and> wi_weight inp > 0
                then (init_db fl)\<lparr>weights := Some \<lparr>rows = rows t @
                       [\<lparr>w_id = next_weight_id t, w_date = isoformat (wi_entry_date inp),
                         w_weight = wi_weight inp,
                         w_body_fat = (if wi_bodyfat inp > 0 then Some (wi_bodyfat inp) else None),
                         w_notes = Some (wi_notes inp)\<rparr>], seq = next_weight_id t\<rparr>\<rparr>
                else init_db fl)"
  using assms by (simp add: run_script_def weight_form_def insert_weight_Some)

lemma run_script_bp:
  assumes "blood_pressure (init_db fl) = Some t"
  shows "run_script (BpRun inp) fl =
           Inr (if bi_add_bp_button inp \<and> bi_systolic inp > 0 \<and> bi_diastolic inp > 0
                then (init_db fl)\<lparr>blood_pressure := Some \<lparr>rows = rows t @
                       [\<lparr>b_id = next_bp_id t, b_date = isoformat (bi_entry_date inp),
                         b_systolic = bi_systolic inp, b_diastolic = bi_diastolic inp,
                         b_notes = Some (bi_notes inp)\<rparr>], seq = next_bp_id t\<rparr>\<rparr>
                else init_db fl)"
  using assms by (simp add: run_script_def bp_form_def insert_bp_Some)

lemma run_script_total: "\<exists>db. run_script r fl = Inr db"
proof (cases r)
  case (WeightRun inp)
  then show ?thesis using run_script_weight [OF weights_init_db] by blast
next
  case (BpRun inp)
  then show ?thesis using run_script_bp [OF blood_pressure_init_db] by blast
qed

lemma run_scripts_total: "\<exists>db. run_scripts rs fl = Inr db"
proof (induction rs arbitrary: fl)
  case Nil
  show ?case by simp
next
  case (Cons r rs)
  obtain db where "run_script r fl = Inr db"
    using run_script_total by blast
  then show ?case using Cons.IH [of db] by simp
qed

text \<open>
  A property of rows that every row written by an accepted submission has holds of all
  rows of the table, whatever runs led to it.
\<close>

lemma run_script_weight_rows:
  assumes run: "run_script r fl = Inr db" and t': "weights db = Some t'"
    and old: "\<And>t. weights fl = Some t \<Longrightarrow> list_all P (rows t)"
    and new: "\<And>inp k. r = WeightRun inp \<Longrightarrow> wi_add_button inp \<Longrightarrow> wi_weight inp > 0 \<Longrightarrow>
               P \<lparr>w_id = k, w_date = isoformat (wi_entry_date inp), w_weight = wi_weight inp,
                  w_body_fat = (if wi_bodyfat inp > 0 then Some (wi_bodyfat inp) else None),
                  w_notes = Some (wi_notes inp)\<rparr>"
  shows "list_all P (rows t')"
proof -
  let ?tw = "case weights fl of None \<Rightarrow> \<lparr>rows = [], seq = 0\<rparr> | Some t \<Rightarrow> t"
  have tw: "weights (init_db fl) = Some ?tw" by (rule weights_init_db)
  have P_tw: "list_all P (rows ?tw)"
    using old by (cases "weights fl") simp_all
  show ?thesis
  proof (cases r)
    case (WeightRun inp)
    let ?row = "\<lparr>w_id = next_weight_id ?tw, w_date = isoformat (wi_entry_date inp),
                  w_weight = wi_weight inp,
                  w_body_fat = (if wi_bodyfat inp > 0 then Some (wi_bodyfat inp) else None),
                  w_notes = Some (wi_notes inp)\<rparr>"
    show ?thesis
    proof (cases "wi_add_button inp \<and> wi_weight inp > 0")
      case True
      have "db = (init_db fl)\<lparr>weights := Some \<lparr>rows = rows ?tw @ [?row],
                   seq = next_weight_id ?tw\<rparr>\<rparr>"
        using run True unfolding WeightRun run_script_weight [OF tw] by simp
      then have "rows t' = rows ?tw @ [?row]"
        using t' by auto
      moreover have "P ?row"
        using True by (intro new [OF WeightRun]) simp_all
      ultimately show ?thesis
        using P_tw by simp
    next
      case False
      have "db = init_db fl"
        using run False unfolding WeightRun run_script_weight [OF tw] by auto
      then have "t' = ?tw" using t' tw by simp
      then show ?thesis using P_tw by simp
    qed
  next
    case (BpRun inp)
    have "weights db = weights (init_db fl)"
      using run unfolding BpRun run_script_bp [OF blood_pressure_init_db]
      by (auto split: if_splits)
    then have "t' = ?tw" using t' tw by simp
    then show ?thesis using P_tw by simp
  qed
qed

lemma run_script_bp_rows:
  assumes run: "run_script r fl = Inr db" and t': "blood_pressure db = Some t'"
    and old: "\<And>t. blood_pressure fl = Some t \<Longrightarrow> list_all Q (rows t)"
    and new: "\<And>inp k. r = BpRun inp \<Longrightarrow> bi_add_bp_button inp \<Longrightarrow>
               bi_systolic inp > 0 \<Longrightarrow> bi_diastolic inp > 0 \<Longrightarrow>
               Q \<lparr>b_id = k, b_date = isoformat (bi_entry_date inp), b_systolic = bi_systolic inp,
                  b_diastolic = bi_diastolic inp, b_notes = Some (bi_notes inp)\<rparr>"
  shows "list_all Q (rows t')"
proof -
  let ?tb = "case blood_pressure fl of None \<Rightarrow> \<lparr>rows = [], seq = 0\<rparr> | Some t \<Rightarrow> t"
  have tb: "blood_pressure (init_db fl) = Some ?tb" by (rule blood_pressure_init_db)
  have Q_tb: "list_all Q (rows ?tb)"
    using old by (cases "blood_pressure fl") simp_all
  show ?thesis
  proof (cases r)
    case (BpRun inp)
    let ?row = "\<lparr>b_id = next_bp_id ?tb, b_date = isoformat (bi_entry_date inp),
                  b_systolic = bi_systolic inp, b_diastolic = bi_diastolic inp,
                  b_notes = Some (bi_notes inp)\<rparr>"
    show ?thesis
    proof (cases "bi_add_bp_button inp \<and> bi_systolic inp > 0 \<and> bi_diastolic inp > 0")
      case True
      have "db = (init_db fl)\<lparr>blood_pressure := Some \<lparr>rows = rows ?tb @ [?row],
                   seq = next_bp_id ?tb\<rparr>\<rparr>"
        using run True unfolding BpRun run_script_bp [OF tb] by simp
      then have "rows t' = rows ?tb @ [?row]"
        using t' by auto
      moreover have "Q ?row"
        using True by (intro new [OF BpRun]) simp_all
      ultimately show ?thesis
        using Q_tb by simp
    next
      case False
      have "db = init_db fl"
        using run False unfolding BpRun run_script_bp [OF tb] by auto
      then have "t' = ?tb" using t' tb by simp
      then show ?thesis using Q_tb by simp
    qed
  next
    case (WeightRun inp)
    have "blood_pressure db = blood_pressure (init_db fl)"
      using run unfolding WeightRun run_script_weight [OF weights_init_db]
      by (auto split: if_splits)
    then have "t' = ?tb" using t' tb by simp
    then show ?thesis using Q_tb by simp
  qed
qed

lemma run_scripts_weight_rows:
  assumes "run_scripts rs fl = Inr db" and "weights db = Some t'"
    and "\<And>t. weights fl = Some t \<Longrightarrow> list_all P (rows t)"
    and "\<And>inp k. WeightRun inp \<in> set rs \<Longrightarrow> wi_add_button inp \<Longrightarrow> wi_weight inp > 0 \<Longrightarrow>
               P \<lparr>w_id = k, w_date = isoformat (wi_entry_date inp), w_weight = wi_weight inp,
                  w_body_fat = (if wi_bodyfat inp > 0 then Some (wi_bodyfat inp) else None),
                  w_notes = Some (wi_notes inp)\<rparr>"
  shows "list_all P (rows t')"
  using assms
proof (induction rs arbitrary: fl)
  case Nil
  then show ?case by simp
next
  case (Cons r rs)
  from Cons.prems(1) obtain mid where mid: "run_script r fl = Inr mid"
    and rest: "run_scripts rs mid = Inr db"
    by (auto split: sum.splits)
  have step: "list_all P (rows t)" if "weights mid = Some t" for t
  proof (rule run_script_weight_rows [OF mid that Cons.prems(3)])
    fix inp k
    assume "r = WeightRun inp" "wi_add_button inp" "0 < wi_weight inp"
    then show "P \<lparr>w_id = k, w_date = isoformat (wi_entry_date inp), w_weight = wi_weight inp,
                  w_body_fat = (if wi_bodyfat inp > 0 then Some (wi_bodyfat inp) else None),
                  w_notes = Some (wi_notes inp)\<rparr>"
      by (intro Cons.prems(4)) simp_all
  qed
  show ?case
  proof (rule Cons.IH [OF rest Cons.prems(2) step])
    fix inp k
    assume "WeightRun inp \<in> set rs" "wi_add_button inp" "0 < wi_weight inp"
    then show "P \<lparr>w_id = k, w_date = isoformat (wi_entry_date inp), w_weight = wi_weight inp,
                  w_body_fat = (if wi_bodyfat inp > 0 then Some (wi_bodyfat inp) else None),
                  w_notes = Some (wi_notes inp)\<rparr>"
      by (intro Cons.prems(4)) simp_all
  qed
qed

lemma run_scripts_bp_rows:
  assumes "run_scripts rs fl = Inr db" and "blood_pressure db = Some t'"
    and "\<And>t. blood_pressure fl = Some t \<Longrightarrow> list_all Q (rows t)"
    and "\<And>inp k. BpRun inp \<in> set rs \<Longrightarrow> bi_add_bp_button inp \<Longrightarrow>
               bi_systolic inp > 0 \<Longrightarrow> bi_diastolic inp > 0 \<Longrightarrow>
               Q \<lparr>b_id = k, b_date = isoformat (bi_entry_date inp), b_systolic = bi_systolic inp,
                  b_diastolic = bi_diastolic inp, b_notes = Some (bi_notes inp)\<rparr>"
  shows "list_all Q (rows t')"
  using assms
proof (induction rs arbitrary: fl)
  case Nil
  then show ?case by simp
next
  case (Cons r rs)
  from Cons.prems(1) obtain mid where mid: "run_script r fl = Inr mid"
    and rest: "run_scripts rs mid = Inr db"
    by (auto split: sum.splits)
  have step: "list_all Q (rows t)" if "blood_pressure mid = Some t" for t
  proof (rule run_script_bp_rows [OF mid that Cons.prems(3)])
    fix inp k
    assume "r = BpRun inp" "bi_add_bp_button inp" "0 < bi_systolic inp" "0 < bi_diastolic inp"
    then show "Q \<lparr>b_id = k, b_date = isoformat (bi_entry_date inp),
                  b_systolic = bi_systolic inp, b_diastolic = bi_diastolic inp,
                  b_notes = Some (bi_notes inp)\<rparr>"
      by (intro Cons.prems(4)) simp_all
  qed
  show ?case
  proof (rule Cons.IH [OF rest Cons.prems(2) step])
    fix inp k
    assume "BpRun inp \<in> set rs" "bi_add_bp_button inp" "0 < bi_systolic inp"
      "0 < bi_diastolic inp"
    then show "Q \<lparr>b_id = k, b_date = isoformat (bi_entry_date inp),
                  b_systolic = bi_systolic inp, b_diastolic = bi_diastolic inp,
                  b_notes = Some (bi_notes inp)\<rparr>"
      by (intro Cons.prems(4)) simp_all
  qed
qed

text \<open>The same for the log of the prototype.\<close>

lemma weight_tracker_state:
  "fst (weight_tracker sv inp ss) =
     Some (fst (log_form inp (case ss of None \<Rightarrow> [] | Some l \<Rightarrow> l)))"
  by (simp add: weight_tracker_def Let_def split: prod.splits)

lemma log_form_rows:
  assumes "list_all P lg"
    and "wi_add_button inp \<Longrightarrow> wi_weight inp > 0 \<Longrightarrow>
           P \<lparr>l_Date = wi_entry_date inp, l_Weight = wi_weight inp,
              l_BodyFat = (if wi_bodyfat inp > 0 then Some (wi_bodyfat inp) else None),
              l_Notes = Some (wi_notes inp)\<rparr>"
  shows "list_all P (fst (log_form inp lg))"
proof (cases "wi_add_button inp \<and> wi_weight inp > 0")
  case True
  then have "fst (log_form inp lg) =
      lg @ [\<lparr>l_Date = wi_entry_date inp, l_Weight = wi_weight inp,
              l_BodyFat = (if wi_bodyfat inp > 0 then Some (wi_bodyfat inp) else None),
              l_Notes = Some (wi_notes inp)\<rparr>]"
    by (simp add: log_form_def)
  then show ?thesis using assms True by simp
next
  case False
  then have "fst (log_form inp lg) = lg"
    by (auto simp add: log_form_def)
  then show ?thesis using assms(1) by simp
qed

lemma tracker_runs_rows:
  assumes "tracker_runs sv inps ss = Some lg"
    and "\<And>l. ss = Some l \<Longrightarrow> list_all P l"
    and "\<And>inp. inp \<in> set inps \<Longrightarrow> wi_add_button inp \<Longrightarrow> wi_weight inp > 0 \<Longrightarrow>
           P \<lparr>l_Date = wi_entry_date inp, l_Weight = wi_weight inp,
              l_BodyFat = (if wi_bodyfat inp > 0 then Some (wi_bodyfat inp) else None),
              l_Notes = Some (wi_notes inp)\<rparr>"
  shows "list_all P lg"
  using assms
proof (induction inps arbitrary: ss)
  case Nil
  then show ?case by simp
next
  case (Cons inp inps)
  let ?l = "case ss of None \<Rightarrow> [] | Some l \<Rightarrow> l"
  have "list_all P ?l"
    using Cons.prems(2) by (cases ss) simp_all
  then have step: "list_all P (fst (log_form inp ?l))"
    by (rule log_form_rows) (rule Cons.prems(3), simp_all)
  have run: "tracker_runs sv inps (Some (fst (log_form inp ?l))) = Some lg"
    using Cons.prems(1) by (simp add: weight_tracker_state)
  show ?case
  proof (rule Cons.IH [OF run])
    fix l assume "Some (fst (log_form inp ?l)) = Some l"
    then show "list_all P l" using step by simp
  next
    fix i
    assume "i \<in> set inps" "wi_add_button i" "0 < wi_weight i"
    then show "P \<lparr>l_Date = wi_entry_date i, l_Weight = wi_weight i,
              l_BodyFat = (if wi_bodyfat i > 0 then Some (wi_bodyfat i) else None),
              l_Notes = Some (wi_notes i)\<rparr>"
      by (intro Cons.prems(3)) simp_all
  qed
qed

section \<open>Facts about the rolling mean\<close>

text \<open>
  After \<open>k\<close> positions the running state holds the number of values in the window that
  ends before position \<open>k\<close> and their sum, and a mean was reported for each position.
\<close>

lemma roll_fold:
  assumes "0 < win"
  shows "foldl (roll_step win win xs) (\<lparr>nobs = 0, sum_x = 0\<rparr>, []) [0..<k] =
           (\<lparr>nobs = min k win, sum_x = (\<Sum>j = k - win..<k. xs ! j)\<rparr>,
            map (\<lambda>i. calc_mean win
                   \<lparr>nobs = min (Suc i) win, sum_x = (\<Sum>j = Suc i - win..<Suc i. xs ! j)\<rparr>)
              [0..<k])"
proof (induction k)
  case 0
  show ?case by simp
next
  case (Suc k)
  let ?s = "\<lparr>nobs = min k win, sum_x = (\<Sum>j = k - win..<k. xs ! j)\<rparr>"
  let ?s' = "\<lparr>nobs = min (Suc k) win, sum_x = (\<Sum>j = Suc k - win..<Suc k. xs ! j)\<rparr>"
  have step: "add_mean (xs ! k) (if win \<le> k then remove_mean (xs ! (k - win)) ?s else ?s) = ?s'"
  proof (cases "win \<le> k")
    case True
    then have lt: "k - win < k" using assms by simp
    have "(\<Sum>j = k - win..<k. xs ! j) - xs ! (k - win) = (\<Sum>j = Suc (k - win)..<k. xs ! j)"
      by (simp add: sum.atLeast_Suc_lessThan [OF lt])
    moreover have "Suc k - win = Suc (k - win)" using True by simp
    moreover have "Suc (k - win) \<le> k" using lt by simp
    ultimately show ?thesis
      using True assms by (simp add: add_mean_def remove_mean_def min_def)
  next
    case False
    then have "Suc k - win = 0" "k - win = 0" by simp_all
    then show ?thesis
      using False by (simp add: add_mean_def min_def)
  qed
  have "roll_step win win xs (?s, out) k = (?s', out @ [calc_mean win ?s'])" for out
    unfolding roll_step_def Let_def fst_conv snd_conv step ..
  then show ?case
    unfolding upt_Suc_append [OF le0] foldl_append Suc.IH by simp
qed

lemma rolling_mean_eq:
  assumes "0 < win"
  shows "rolling_mean win xs =
           map (\<lambda>i. if win \<le> Suc i
                     then Some ((\<Sum>j = Suc i - win..<Suc i. xs ! j) / real win) else None)
             [0..<length xs]"
  unfolding rolling_mean_def roll_fold [OF assms]
  using assms by (auto simp add: calc_mean_def min_def)

lemma rolling_mean_3_nth:
  assumes "i < length xs"
  shows "rolling_mean 3 xs ! i =
           (if i < 2 then None else Some ((xs ! (i - 2) + xs ! (i - 1) + xs ! i) / 3))"
proof (cases "i < 2")
  case True
  then show ?thesis using assms by (simp add: rolling_mean_eq)
next
  case False
  then obtain j where j: "i = Suc (Suc j)"
    by (metis One_nat_def Suc_1 less_Suc_eq not0_implies_Suc not_less_eq)
  have "(\<Sum>m = j..<Suc (Suc (Suc j)). xs ! m) = xs ! j + xs ! Suc j + xs ! Suc (Suc j)"
    by simp
  then show ?thesis
    using assms False by (simp add: rolling_mean_eq j)
qed

lemma length_rolling_mean: "length (rolling_mean 3 xs) = length xs"
  by (simp add: rolling_mean_eq)

lemma with_trend_columns:
  "map t_Trend (with_trend data) = rolling_mean 3 (map l_Weight data)"
  "map t_Weight (with_trend data) = map l_Weight data"
  "map t_Date (with_trend data) = map l_Date data"
  "length (with_trend data) = length data"
proof -
  have len: "length data = length (rolling_mean 3 (map l_Weight data))"
    by (simp add: length_rolling_mean)
  have fst_zip: "map fst (zip data (rolling_mean 3 (map l_Weight data))) = data"
    and snd_zip: "map snd (zip data (rolling_mean 3 (map l_Weight data)))
                    = rolling_mean 3 (map l_Weight data)"
    using len by simp_all
  have "map t_Trend (with_trend data) = map snd (zip data (rolling_mean 3 (map l_Weight data)))"
    by (simp add: with_trend_def case_prod_beta)
  then show "map t_Trend (with_trend data) = rolling_mean 3 (map l_Weight data)"
    using snd_zip by simp
  have "map t_Weight (with_trend data)
          = map l_Weight (map fst (zip data (rolling_mean 3 (map l_Weight data))))"
    by (simp add: with_trend_def case_prod_beta)
  then show "map t_Weight (with_trend data) = map l_Weight data"
    using fst_zip by simp
  have "map t_Date (with_trend data)
          = map l_Date (map fst (zip data (rolling_mean 3 (map l_Weight data))))"
    by (simp add: with_trend_def case_prod_beta)
  then show "map t_Date (with_trend data) = map l_Date data"
    using fst_zip by simp
  show "length (with_trend data) = length data"
    using len by (simp add: with_trend_def)
qed

section \<open>Facts about loading in date order\<close>





















section \<open>The claims on validation and on the axis ranges\<close>

text \<open>
  C1. When the weight form is submitted with a weight that is not above 0, nothing is
  stored (the file, and in the prototype the log, stay as they were) and the caller gets
  the warning; with a weight above 0 exactly one row is appended, carrying the entered
  date and weight, and the caller gets the success message.
\<close>

theorem append_weight_validated:
  assumes "wi_add_button inp" and "weights db = Some t"
  shows "if wi_weight inp \<le> 0
         then weight_form inp db = Inr (db, Some Warning) \<and> log_form inp lg = (lg, Some Warning)
         else weight_form inp db =
                Inr (db\<lparr>weights := Some \<lparr>rows = rows t @
                       [\<lparr>w_id = next_weight_id t, w_date = isoformat (wi_entry_date inp),
                         w_weight = wi_weight inp,
                         w_body_fat = (if wi_bodyfat inp > 0 then Some (wi_bodyfat inp) else None),
                         w_notes = Some (wi_notes inp)\<rparr>], seq = next_weight_id t\<rparr>\<rparr>,
                     Some Success)
            \<and> log_form inp lg =
                (lg @ [\<lparr>l_Date = wi_entry_date inp, l_Weight = wi_weight inp,
                        l_BodyFat = (if wi_bodyfat inp > 0 then Some (wi_bodyfat inp) else None),
                        l_Notes = Some (wi_notes inp)\<rparr>], Some Success)"
  using assms by (simp add: weight_form_def log_form_def insert_weight_Some)

theorem append_weight_validated_witness:
  "weight_form \<lparr>wi_entry_date = \<lparr>year = 2024, month = 3, day = 9\<rparr>, wi_weight = 0,
       wi_bodyfat = 0, wi_notes = '''', wi_add_button = True\<rparr> (init_db no_file)
     = Inr (init_db no_file, Some Warning)
   \<and> weight_form \<lparr>wi_entry_date = \<lparr>year = 2024, month = 3, day = 9\<rparr>, wi_weight = 72.5,
       wi_bodyfat = 0, wi_notes = '''', wi_add_button = True\<rparr> (init_db no_file)
     = Inr ((init_db no_file)\<lparr>weights := Some \<lparr>rows =
          [\<lparr>w_id = 1, w_date = ''2024-03-09'', w_weight = 72.5, w_body_fat = None,
            w_notes = Some ''''\<rparr>], seq = 1\<rparr>\<rparr>, Some Success)"
proof -
  have t: "weights (init_db no_file) = Some \<lparr>rows = [], seq = 0\<rparr>"
    by (simp add: init_db_tables no_file_def)
  have iso: "isoformat \<lparr>year = 2024, month = 3, day = 9\<rparr> = ''2024-03-09''"
    by code_simp
  show ?thesis
    using append_weight_validated [of "\<lparr>wi_entry_date = \<lparr>year = 2024, month = 3, day = 9\<rparr>,
             wi_weight = 0, wi_bodyfat = 0, wi_notes = '''', wi_add_button = True\<rparr>"
             "init_db no_file" "\<lparr>rows = [], seq = 0\<rparr>" "[]"]
          append_weight_validated [of "\<lparr>wi_entry_date = \<lparr>year = 2024, month = 3, day = 9\<rparr>,
             wi_weight = 72.5, wi_bodyfat = 0, wi_notes = '''', wi_add_button = True\<rparr>"
             "init_db no_file" "\<lparr>rows = [], seq = 0\<rparr>" "[]"]
          t iso
    by (simp add: next_weight_id_def)
qed

text \<open>
  C6. When the loaded weights are not empty, the page is shown and the range of the
  weight chart runs from the smaller of the least weight and the target 100, less 10, to
  the greatest weight plus 10. With least weight 65 and greatest 90 this is 55 to 100.
\<close>

theorem weight_axis_range:
  assumes "loaded \<noteq> []" and "weight_frame loaded = Inr data"
  shows "\<exists>v. weight_display loaded = Inr (Shown v) \<and>
             wv_weight_range v =
               (Some (min (Min (set (map w_weight loaded))) 100 - 10),
                Some (Max (set (map w_weight loaded)) + 10))"
proof -
  have ne: "data \<noteq> []"
    using assms weight_frame_Inr(6) [OF assms(2)] by auto
  have "weight_yaxis_range 100 data =
               (Some (min (Min (set (map w_weight loaded))) 100 - 10),
                Some (Max (set (map w_weight loaded)) + 10))"
    using weight_yaxis_range_eq [OF ne] weight_frame_Inr(1) [OF assms(2)] by simp
  then show ?thesis
    using assms by (simp add: weight_display_def)
qed

theorem weight_axis_range_witness:
  "\<exists>v. weight_display
          [\<lparr>w_id = 1, w_date = ''2024-03-09'', w_weight = 65, w_body_fat = None,
             w_notes = Some ''''\<rparr>,
           \<lparr>w_id = 2, w_date = ''2024-03-10'', w_weight = 90, w_body_fat = Some 18,
             w_notes = Some ''''\<rparr>,
           \<lparr>w_id = 3, w_date = ''2024-03-11'', w_weight = 80, w_body_fat = None,
             w_notes = Some ''''\<rparr>] = Inr (Shown v)
       \<and> wv_weight_range v = (Some 55, Some 100)"
proof -
  let ?loaded = "[\<lparr>w_id = 1, w_date = ''2024-03-09'', w_weight = 65, w_body_fat = None,
             w_notes = Some ''''\<rparr>,
           \<lparr>w_id = 2, w_date = ''2024-03-10'', w_weight = 90, w_body_fat = Some 18,
             w_notes = Some ''''\<rparr>,
           \<lparr>w_id = 3, w_date = ''2024-03-11'', w_weight = 80, w_body_fat = None,
             w_notes = Some ''''\<rparr>]"
  have a: "to_datetime ''2024-03-09'' = Some \<lparr>year = 2024, month = 3, day = 9\<rparr>"
    by code_simp
  have b: "to_datetime ''2024-03-10'' = Some \<lparr>year = 2024, month = 3, day = 10\<rparr>"
    by code_simp
  have c: "to_datetime ''2024-03-11'' = Some \<lparr>year = 2024, month = 3, day = 11\<rparr>"
    by code_simp
  have f: "weight_frame ?loaded = Inr
      [\<lparr>r_id = 1, r_Date = \<lparr>year = 2024, month = 3, day = 9\<rparr>, r_Weight = 65,
         r_BodyFat = None, r_Notes = Some ''''\<rparr>,
       \<lparr>r_id = 2, r_Date = \<lparr>year = 2024, month = 3, day = 10\<rparr>, r_Weight = 90,
         r_BodyFat = Some 18, r_Notes = Some ''''\<rparr>,
       \<lparr>r_id = 3, r_Date = \<lparr>year = 2024, month = 3, day = 11\<rparr>, r_Weight = 80,
         r_BodyFat = None, r_Notes = Some ''''\<rparr>]"
    by (simp add: weight_frame_def a b c)
  have ne: "?loaded \<noteq> []" by simp
  show ?thesis
    using weight_axis_range [OF ne f] by simp
qed

text \<open>
  C7. When the loaded readings are not empty, the page is shown and the range of the
  pressure chart runs from the smaller of the least diastolic value and the diastolic
  target minimum 60, less 5, to the greatest systolic value plus 10. The range function
  gives the same bounds whatever the two systolic targets (and the diastolic target
  maximum) are.
\<close>

theorem pressure_axis_range:
  assumes "loaded \<noteq> []" and "bp_frame loaded = Inr data_bp"
  shows "(\<exists>v. bp_display loaded = Inr (Shown v) \<and>
              bv_pressure_range v =
                (Some (min (Min (set (map b_diastolic loaded))) 60 - 5),
                 Some (Max (set (map b_systolic loaded)) + 10)))
         \<and> pressure_yaxis_range sMin sMax 60 dMax data_bp =
             pressure_yaxis_range 100 120 60 80 data_bp"
proof -
  have ne: "data_bp \<noteq> []"
    using assms bp_frame_Inr(6) [OF assms(2)] by auto
  have "pressure_yaxis_range 100 120 60 80 data_bp =
                (Some (min (Min (set (map b_diastolic loaded))) 60 - 5),
                 Some (Max (set (map b_systolic loaded)) + 10))"
    using pressure_yaxis_range_eq [OF ne] bp_frame_Inr(1,2) [OF assms(2)] by simp
  then have "\<exists>v. bp_display loaded = Inr (Shown v) \<and>
              bv_pressure_range v =
                (Some (min (Min (set (map b_diastolic loaded))) 60 - 5),
                 Some (Max (set (map b_systolic loaded)) + 10))"
    using assms by (simp add: bp_display_def)
  moreover have "pressure_yaxis_range sMin sMax 60 dMax data_bp =
             pressure_yaxis_range 100 120 60 80 data_bp"
    by (simp add: pressure_yaxis_range_eq [OF ne])
  ultimately show ?thesis by blast
qed

theorem pressure_axis_range_witness:
  "(\<exists>v. bp_display
          [\<lparr>b_id = 1, b_date = ''2024-03-09'', b_systolic = 118, b_diastolic = 76,
             b_notes = Some ''morning''\<rparr>,
           \<lparr>b_id = 2, b_date = ''2024-03-10'', b_systolic = 131, b_diastolic = 58,
             b_notes = Some ''''\<rparr>] = Inr (Shown v)
       \<and> bv_pressure_range v = (Some 53, Some 141))
   \<and> pressure_yaxis_range 0 500 60 0
        [\<lparr>p_id = 1, p_Date = \<lparr>year = 2024, month = 3, day = 9\<rparr>, p_Systolic = 118,
           p_Diastolic = 76, p_Notes = Some ''morning''\<rparr>,
         \<lparr>p_id = 2, p_Date = \<lparr>year = 2024, month = 3, day = 10\<rparr>, p_Systolic = 131,
           p_Diastolic = 58, p_Notes = Some ''''\<rparr>]
      = pressure_yaxis_range 100 120 60 80
        [\<lparr>p_id = 1, p_Date = \<lparr>year = 2024, month = 3, day = 9\<rparr>, p_Systolic = 118,
           p_Diastolic = 76, p_Notes = Some ''morning''\<rparr>,
         \<lparr>p_id = 2, p_Date = \<lparr>year = 2024, month = 3, day = 10\<rparr>, p_Systolic = 131,
           p_Diastolic = 58, p_Notes = Some ''''\<rparr>]"
proof -
  let ?loaded = "[\<lparr>b_id = 1, b_date = ''2024-03-09'', b_systolic = 118, b_diastolic = 76,
             b_notes = Some ''morning''\<rparr>,
           \<lparr>b_id = 2, b_date = ''2024-03-10'', b_systolic = 131, b_diastolic = 58,
             b_notes = Some ''''\<rparr>]"
  have a: "to_datetime ''2024-03-09'' = Some \<lparr>year = 2024, month = 3, day = 9\<rparr>"
    by code_simp
  have b: "to_datetime ''2024-03-10'' = Some \<lparr>year = 2024, month = 3, day = 10\<rparr>"
    by code_simp
  have f: "bp_frame ?loaded = Inr
        [\<lparr>p_id = 1, p_Date = \<lparr>year = 2024, month = 3, day = 9\<rparr>, p_Systolic = 118,
           p_Diastolic = 76, p_Notes = Some ''morning''\<rparr>,
         \<lparr>p_id = 2, p_Date = \<lparr>year = 2024, month = 3, day = 10\<rparr>, p_Systolic = 131,
           p_Diastolic = 58, p_Notes = Some ''''\<rparr>]"
    by (simp add: bp_frame_def a b)
  have ne: "?loaded \<noteq> []" by simp
  show ?thesis
    using pressure_axis_range [OF ne f, of 0 500 0] by simp
qed

text \<open>
  C9. When the loaded weights are not empty and no row has a body-fat value, the page is
  still shown (it is not the no-data state), and the lower bound of the body-fat chart is
  the target minimum 11 less 5, that is 6: the minimum of the column is NaN, which does not
  compare as below the target. The upper bound is NaN.
\<close>

theorem bodyfat_axis_all_null:
  assumes "loaded \<noteq> []" and "\<forall>r\<in>set loaded. w_body_fat r = None"
    and "weight_frame loaded = Inr data"
  shows "\<exists>v. weight_display loaded = Inr (Shown v) \<and> wv_bodyfat_range v = (Some 6, None)"
proof -
  have "set (map r_BodyFat data) = set (map w_body_fat loaded)"
    using weight_frame_Inr(2) [OF assms(3)] by simp
  then have "\<forall>r\<in>set data. r_BodyFat r = None"
    using assms(2) by (metis (no_types, lifting) image_eqI imageE list.set_map)
  then have "bodyfat_yaxis_range 11 20 data = (Some 6, None)"
    by (rule bodyfat_yaxis_range_all_null)
  then show ?thesis
    using assms by (simp add: weight_display_def)
qed

theorem bodyfat_axis_all_null_witness:
  "\<exists>v. weight_display
          [\<lparr>w_id = 1, w_date = ''2024-03-09'', w_weight = 65, w_body_fat = None,
             w_notes = Some ''''\<rparr>,
           \<lparr>w_id = 2, w_date = ''2024-03-10'', w_weight = 90, w_body_fat = None,
             w_notes = Some ''''\<rparr>] = Inr (Shown v)
       \<and> wv_bodyfat_range v = (Some 6, None)"
proof -
  let ?loaded = "[\<lparr>w_id = 1, w_date = ''2024-03-09'', w_weight = 65, w_body_fat = None,
             w_notes = Some ''''\<rparr>,
           \<lparr>w_id = 2, w_date = ''2024-03-10'', w_weight = 90, w_body_fat = None,
             w_notes = Some ''''\<rparr>]"
  have a: "to_datetime ''2024-03-09'' = Some \<lparr>year = 2024, month = 3, day = 9\<rparr>"
    by code_simp
  have b: "to_datetime ''2024-03-10'' = Some \<lparr>year = 2024, month = 3, day = 10\<rparr>"
    by code_simp
  have f: "weight_frame ?loaded = Inr
      [\<lparr>r_id = 1, r_Date = \<lparr>year = 2024, month = 3, day = 9\<rparr>, r_Weight = 65,
         r_BodyFat = None, r_Notes = Some ''''\<rparr>,
       \<lparr>r_id = 2, r_Date = \<lparr>year = 2024, month = 3, day = 10\<rparr>, r_Weight = 90,
         r_BodyFat = None, r_Notes = Some ''''\<rparr>]"
    by (simp add: weight_frame_def a b)
  have ne: "?loaded \<noteq> []" by simp
  have nul: "\<forall>r\<in>set ?loaded. w_body_fat r = None" by simp
  show ?thesis
    using bodyfat_axis_all_null [OF ne nul f] by simp
qed

section \<open>The claims on body fat and on notes\<close>

lemma stored_bodyfat_nonzero:
  assumes "run_scripts rs no_file = Inr db" and "weights db = Some t"
  shows "list_all (\<lambda>r. w_body_fat r \<noteq> Some 0) (rows t)"
  by (rule run_scripts_weight_rows [OF assms]) (simp_all add: no_file_def)

lemma logged_bodyfat_nonzero:
  assumes "tracker_runs sv inps None = Some lg"
  shows "list_all (\<lambda>r. l_BodyFat r \<noteq> Some 0) lg"
  by (rule tracker_runs_rows [OF assms]) simp_all

text \<open>
  C4. An accepted weight submission stores a row whose body fat is null when the entered
  body fat is not above 0 (the widget gives 0 when nothing is entered) and is the entered
  value when that is above 0; so the stored body fat is not 0. This holds of the row
  written to the SQLite file and of the row added to the log of the prototype, and thus
  of every row of a file or log that the program built from nothing.
\<close>

theorem bodyfat_zero_is_null:
  "(wi_add_button inp \<longrightarrow> wi_weight inp > 0 \<longrightarrow> weights db = Some t \<longrightarrow>
      (\<exists>r. weight_form inp db =
              Inr (db\<lparr>weights := Some \<lparr>rows = rows t @ [r], seq = w_id r\<rparr>\<rparr>, Some Success)
          \<and> w_body_fat r = (if wi_bodyfat inp > 0 then Some (wi_bodyfat inp) else None)
          \<and> w_body_fat r \<noteq> Some 0)
      \<and> (\<exists>r. log_form inp lg = (lg @ [r], Some Success)
          \<and> l_BodyFat r = (if wi_bodyfat inp > 0 then Some (wi_bodyfat inp) else None)
          \<and> l_BodyFat r \<noteq> Some 0))
   \<and> (run_scripts rs no_file = Inr db' \<longrightarrow> weights db' = Some t' \<longrightarrow>
        (\<forall>r\<in>set (rows t'). w_body_fat r \<noteq> Some 0))
   \<and> (tracker_runs sv inps None = Some lg' \<longrightarrow> (\<forall>r\<in>set lg'. l_BodyFat r \<noteq> Some 0))"
proof (intro conjI impI)
  assume a: "wi_add_button inp" "wi_weight inp > 0" "weights db = Some t"
  let ?r = "\<lparr>w_id = next_weight_id t, w_date = isoformat (wi_entry_date inp),
             w_weight = wi_weight inp,
             w_body_fat = (if wi_bodyfat inp > 0 then Some (wi_bodyfat inp) else None),
             w_notes = Some (wi_notes inp)\<rparr>"
  have "weight_form inp db =
           Inr (db\<lparr>weights := Some \<lparr>rows = rows t @ [?r], seq = w_id ?r\<rparr>\<rparr>, Some Success)"
    using weight_form_accept [OF a] by simp
  moreover have "w_body_fat ?r = (if wi_bodyfat inp > 0 then Some (wi_bodyfat inp) else None)"
    by simp
  moreover have "w_body_fat ?r \<noteq> Some 0" by simp
  ultimately show "\<exists>r. weight_form inp db =
              Inr (db\<lparr>weights := Some \<lparr>rows = rows t @ [r], seq = w_id r\<rparr>\<rparr>, Some Success)
          \<and> w_body_fat r = (if wi_bodyfat inp > 0 then Some (wi_bodyfat inp) else None)
          \<and> w_body_fat r \<noteq> Some 0"
    by blast
  let ?l = "\<lparr>l_Date = wi_entry_date inp, l_Weight = wi_weight inp,
             l_BodyFat = (if wi_bodyfat inp > 0 then Some (wi_bodyfat inp) else None),
             l_Notes = Some (wi_notes inp)\<rparr>"
  have "log_form inp lg = (lg @ [?l], Some Success)"
    using a by (simp add: log_form_def)
  moreover have "l_BodyFat ?l = (if wi_bodyfat inp > 0 then Some (wi_bodyfat inp) else None)"
    by simp
  moreover have "l_BodyFat ?l \<noteq> Some 0" by simp
  ultimately show "\<exists>r. log_form inp lg = (lg @ [r], Some Success)
          \<and> l_BodyFat r = (if wi_bodyfat inp > 0 then Some (wi_bodyfat inp) else None)
          \<and> l_BodyFat r \<noteq> Some 0"
    by blast
next
  assume "run_scripts rs no_file = Inr db'" "weights db' = Some t'"
  then show "\<forall>r\<in>set (rows t'). w_body_fat r \<noteq> Some 0"
    using stored_bodyfat_nonzero by (simp add: list_all_iff)
next
  assume "tracker_runs sv inps None = Some lg'"
  then show "\<forall>r\<in>set lg'. l_BodyFat r \<noteq> Some 0"
    using logged_bodyfat_nonzero by (simp add: list_all_iff)
qed

lemma run_two_weights:
  "run_scripts
     [WeightRun \<lparr>wi_entry_date = \<lparr>year = 2024, month = 3, day = 9\<rparr>, wi_weight = 72.5,
         wi_bodyfat = 0, wi_notes = '''', wi_add_button = True\<rparr>,
      WeightRun \<lparr>wi_entry_date = \<lparr>year = 2024, month = 3, day = 9\<rparr>, wi_weight = 72,
         wi_bodyfat = 18.5, wi_notes = ''evening'', wi_add_button = True\<rparr>] no_file
   = Inr \<lparr>weights = Some \<lparr>rows =
            [\<lparr>w_id = 1, w_date = ''2024-03-09'', w_weight = 72.5, w_body_fat = None,
               w_notes = Some ''''\<rparr>,
             \<lparr>w_id = 2, w_date = ''2024-03-09'', w_weight = 72, w_body_fat = Some 18.5,
               w_notes = Some ''evening''\<rparr>], seq = 2\<rparr>,
          blood_pressure = Some \<lparr>rows = [], seq = 0\<rparr>\<rparr>"
proof -
  have iso: "isoformat \<lparr>year = 2024, month = 3, day = 9\<rparr> = ''2024-03-09''"
    by code_simp
  show ?thesis
    by (simp add: run_script_def weight_form_def insert_weight_def init_db_def connect_def
        commit_def close_def no_file_def next_weight_id_def iso Let_def)
qed

lemma track_two_weights:
  "tracker_runs stable_engine
     [\<lparr>wi_entry_date = \<lparr>year = 2024, month = 3, day = 9\<rparr>, wi_weight = 72.5,
         wi_bodyfat = 0, wi_notes = '''', wi_add_button = True\<rparr>,
      \<lparr>wi_entry_date = \<lparr>year = 2024, month = 3, day = 9\<rparr>, wi_weight = 72,
         wi_bodyfat = 18.5, wi_notes = ''evening'', wi_add_button = True\<rparr>] None
   = Some [\<lparr>l_Date = \<lparr>year = 2024, month = 3, day = 9\<rparr>, l_Weight = 72.5, l_BodyFat = None,
              l_Notes = Some ''''\<rparr>,
           \<lparr>l_Date = \<lparr>year = 2024, month = 3, day = 9\<rparr>, l_Weight = 72,
              l_BodyFat = Some 18.5, l_Notes = Some ''evening''\<rparr>]"
  by (simp add: weight_tracker_state log_form_def)

theorem bodyfat_zero_is_null_witness:
  "(\<exists>r. weight_form \<lparr>wi_entry_date = \<lparr>year = 2024, month = 3, day = 9\<rparr>, wi_weight = 72.5,
            wi_bodyfat = 0, wi_notes = '''', wi_add_button = True\<rparr> (init_db no_file) =
          Inr ((init_db no_file)\<lparr>weights := Some \<lparr>rows = [r], seq = w_id r\<rparr>\<rparr>, Some Success)
        \<and> w_body_fat r = None)
   \<and> (\<exists>r. log_form \<lparr>wi_entry_date = \<lparr>year = 2024, month = 3, day = 9\<rparr>, wi_weight = 72.5,
            wi_bodyfat = 0, wi_notes = '''', wi_add_button = True\<rparr> [] = ([r], Some Success)
        \<and> l_BodyFat r = None)
   \<and> list_all (\<lambda>r. w_body_fat r \<noteq> Some 0)
        [\<lparr>w_id = 1, w_date = ''2024-03-09'', w_weight = 72.5, w_body_fat = None,
           w_notes = Some ''''\<rparr>,
         \<lparr>w_id = 2, w_date = ''2024-03-09'', w_weight = 72, w_body_fat = Some 18.5,
           w_notes = Some ''evening''\<rparr>]
   \<and> list_all (\<lambda>r. l_BodyFat r \<noteq> Some 0)
        [\<lparr>l_Date = \<lparr>year = 2024, month = 3, day = 9\<rparr>, l_Weight = 72.5, l_BodyFat = None,
              l_Notes = Some ''''\<rparr>,
           \<lparr>l_Date = \<lparr>year = 2024, month = 3, day = 9\<rparr>, l_Weight = 72,
              l_BodyFat = Some 18.5, l_Notes = Some ''evening''\<rparr>]"
proof -
  let ?inp = "\<lparr>wi_entry_date = \<lparr>year = 2024, month = 3, day = 9\<rparr>, wi_weight = 72.5,
            wi_bodyfat = 0, wi_notes = '''', wi_add_button = True\<rparr>"
  let ?t' = "\<lparr>rows =
            [\<lparr>w_id = 1, w_date = ''2024-03-09'', w_weight = 72.5, w_body_fat = None,
               w_notes = Some ''''\<rparr>,
             \<lparr>w_id = 2, w_date = ''2024-03-09'', w_weight = 72, w_body_fat = Some 18.5,
               w_notes = Some ''evening''\<rparr>], seq = 2\<rparr>"
  let ?db' = "\<lparr>weights = Some ?t', blood_pressure = Some \<lparr>rows = [], seq = 0\<rparr>\<rparr>"
  have h1: "wi_add_button ?inp" and h2: "wi_weight ?inp > 0" by simp_all
  have h3: "weights (init_db no_file) = Some \<lparr>rows = [], seq = 0\<rparr>"
    by (simp add: init_db_tables no_file_def)
  have h4: "weights ?db' = Some ?t'" by simp
  note th = bodyfat_zero_is_null [of ?inp "init_db no_file" "\<lparr>rows = [], seq = 0\<rparr>" "[]"
      _ ?db' ?t' stable_engine]
  note a = th [THEN conjunct1, rule_format, OF h1 h2 h3]
  note b = th [THEN conjunct2, THEN conjunct1, rule_format, OF run_two_weights h4]
  note c = th [THEN conjunct2, THEN conjunct2, rule_format, OF track_two_weights]
  have "\<exists>r. weight_form ?inp (init_db no_file) =
          Inr ((init_db no_file)\<lparr>weights := Some \<lparr>rows = [r], seq = w_id r\<rparr>\<rparr>, Some Success)
        \<and> w_body_fat r = None"
    using a [THEN conjunct1] by auto
  moreover have "\<exists>r. log_form ?inp [] = ([r], Some Success) \<and> l_BodyFat r = None"
    using a [THEN conjunct2] by auto
  moreover have "list_all (\<lambda>r. w_body_fat r \<noteq> Some 0) (rows ?t')"
    using b by (simp add: list_all_iff)
  moreover have "list_all (\<lambda>r. l_BodyFat r \<noteq> Some 0)
        [\<lparr>l_Date = \<lparr>year = 2024, month = 3, day = 9\<rparr>, l_Weight = 72.5, l_BodyFat = None,
              l_Notes = Some ''''\<rparr>,
           \<lparr>l_Date = \<lparr>year = 2024, month = 3, day = 9\<rparr>, l_Weight = 72,
              l_BodyFat = Some 18.5, l_Notes = Some ''evening''\<rparr>]"
    using c by (simp add: list_all_iff)
  ultimately show ?thesis by simp
qed

lemma stored_weight_notes:
  assumes "run_scripts rs no_file = Inr db" and "weights db = Some t"
  shows "list_all (\<lambda>r. \<exists>inp. WeightRun inp \<in> set rs \<and> w_notes r = Some (wi_notes inp)) (rows t)"
  by (rule run_scripts_weight_rows [OF assms]) (auto simp add: no_file_def)

lemma stored_bp_notes:
  assumes "run_scripts rs no_file = Inr db" and "blood_pressure db = Some t"
  shows "list_all (\<lambda>r. \<exists>inp. BpRun inp \<in> set rs \<and> b_notes r = Some (bi_notes inp)) (rows t)"
  by (rule run_scripts_bp_rows [OF assms]) (auto simp add: no_file_def)

lemma logged_notes:
  assumes "tracker_runs sv inps None = Some lg"
  shows "list_all (\<lambda>r. \<exists>inp\<in>set inps. l_Notes r = Some (wi_notes inp)) lg"
  by (rule tracker_runs_rows [OF assms]) auto

text \<open>
  C10. Every accepted submission stores a row whose notes are the text of its own notes
  field, a string: the empty string when the field was left blank. This holds of the
  weight form and the blood-pressure form of health\_tracker.py and of the form of the
  prototype. So in a file or a log that the program built from nothing, the notes of
  every row are the text of a submission and never null.
\<close>

theorem notes_never_null:
  "(wi_add_button inp \<longrightarrow> wi_weight inp > 0 \<longrightarrow> weights db0 = Some tw \<longrightarrow>
      (\<exists>r. weight_form inp db0 =
              Inr (db0\<lparr>weights := Some \<lparr>rows = rows tw @ [r], seq = w_id r\<rparr>\<rparr>, Some Success)
          \<and> w_notes r = Some (wi_notes inp))
      \<and> (\<exists>r. log_form inp lg0 = (lg0 @ [r], Some Success)
          \<and> l_Notes r = Some (wi_notes inp)))
   \<and> (bi_add_bp_button binp \<longrightarrow> bi_systolic binp > 0 \<longrightarrow> bi_diastolic binp > 0 \<longrightarrow>
        blood_pressure db0 = Some tb \<longrightarrow>
      (\<exists>r. bp_form binp db0 =
              Inr (db0\<lparr>blood_pressure := Some \<lparr>rows = rows tb @ [r], seq = b_id r\<rparr>\<rparr>,
                   Some Success)
          \<and> b_notes r = Some (bi_notes binp)))
   \<and> (run_scripts rs no_file = Inr db \<longrightarrow>
      (\<forall>t. weights db = Some t \<longrightarrow>
         (\<forall>r\<in>set (rows t). \<exists>inp. WeightRun inp \<in> set rs \<and> w_notes r = Some (wi_notes inp)))
    \<and> (\<forall>t. blood_pressure db = Some t \<longrightarrow>
         (\<forall>r\<in>set (rows t). \<exists>inp. BpRun inp \<in> set rs \<and> b_notes r = Some (bi_notes inp))))
   \<and> (tracker_runs sv inps None = Some lg \<longrightarrow>
         (\<forall>r\<in>set lg. \<exists>inp\<in>set inps. l_Notes r = Some (wi_notes inp)))"
proof (intro conjI impI)
  assume a: "wi_add_button inp" "wi_weight inp > 0" "weights db0 = Some tw"
  let ?r = "\<lparr>w_id = next_weight_id tw, w_date = isoformat (wi_entry_date inp),
             w_weight = wi_weight inp,
             w_body_fat = (if wi_bodyfat inp > 0 then Some (wi_bodyfat inp) else None),
             w_notes = Some (wi_notes inp)\<rparr>"
  have "weight_form inp db0 =
           Inr (db0\<lparr>weights := Some \<lparr>rows = rows tw @ [?r], seq = w_id ?r\<rparr>\<rparr>, Some Success)"
    using weight_form_accept [OF a] by simp
  moreover have "w_notes ?r = Some (wi_notes inp)" by simp
  ultimately show "\<exists>r. weight_form inp db0 =
              Inr (db0\<lparr>weights := Some \<lparr>rows = rows tw @ [r], seq = w_id r\<rparr>\<rparr>, Some Success)
          \<and> w_notes r = Some (wi_notes inp)"
    by blast
  let ?l = "\<lparr>l_Date = wi_entry_date inp, l_Weight = wi_weight inp,
             l_BodyFat = (if wi_bodyfat inp > 0 then Some (wi_bodyfat inp) else None),
             l_Notes = Some (wi_notes inp)\<rparr>"
  have "log_form inp lg0 = (lg0 @ [?l], Some Success)"
    using a by (simp add: log_form_def)
  moreover have "l_Notes ?l = Some (wi_notes inp)" by simp
  ultimately show "\<exists>r. log_form inp lg0 = (lg0 @ [r], Some Success)
          \<and> l_Notes r = Some (wi_notes inp)"
    by blast
next
  assume b: "bi_add_bp_button binp" "bi_systolic binp > 0" "bi_diastolic binp > 0"
    "blood_pressure db0 = Some tb"
  let ?r = "\<lparr>b_id = next_bp_id tb, b_date = isoformat (bi_entry_date binp),
             b_systolic = bi_systolic binp, b_diastolic = bi_diastolic binp,
             b_notes = Some (bi_notes binp)\<rparr>"
  have "bp_form binp db0 =
           Inr (db0\<lparr>blood_pressure := Some \<lparr>rows = rows tb @ [?r], seq = b_id ?r\<rparr>\<rparr>,
                Some Success)"
    using bp_form_accept [OF b] by simp
  moreover have "b_notes ?r = Some (bi_notes binp)" by simp
  ultimately show "\<exists>r. bp_form binp db0 =
              Inr (db0\<lparr>blood_pressure := Some \<lparr>rows = rows tb @ [r], seq = b_id r\<rparr>\<rparr>,
                   Some Success)
          \<and> b_notes r = Some (bi_notes binp)"
    by blast
next
  assume run: "run_scripts rs no_file = Inr db"
  show "\<forall>t. weights db = Some t \<longrightarrow>
         (\<forall>r\<in>set (rows t). \<exists>inp. WeightRun inp \<in> set rs \<and> w_notes r = Some (wi_notes inp))"
    using stored_weight_notes [OF run] by (simp add: list_all_iff)
  show "\<forall>t. blood_pressure db = Some t \<longrightarrow>
         (\<forall>r\<in>set (rows t). \<exists>inp. BpRun inp \<in> set rs \<and> b_notes r = Some (bi_notes inp))"
    using stored_bp_notes [OF run] by (simp add: list_all_iff)
next
  assume "tracker_runs sv inps None = Some lg"
  then show "\<forall>r\<in>set lg. \<exists>inp\<in>set inps. l_Notes r = Some (wi_notes inp)"
    using logged_notes by (simp add: list_all_iff)
qed

lemma run_weight_then_bp:
  "run_scripts
     [WeightRun \<lparr>wi_entry_date = \<lparr>year = 2024, month = 3, day = 9\<rparr>, wi_weight = 72.5,
         wi_bodyfat = 0, wi_notes = '''', wi_add_button = True\<rparr>,
      BpRun \<lparr>bi_entry_date = \<lparr>year = 2024, month = 3, day = 9\<rparr>, bi_systolic = 118,
         bi_diastolic = 76, bi_notes = '''', bi_add_bp_button = True\<rparr>] no_file
   = Inr \<lparr>weights = Some \<lparr>rows =
            [\<lparr>w_id = 1, w_date = ''2024-03-09'', w_weight = 72.5, w_body_fat = None,
               w_notes = Some ''''\<rparr>], seq = 1\<rparr>,
          blood_pressure = Some \<lparr>rows =
            [\<lparr>b_id = 1, b_date = ''2024-03-09'', b_systolic = 118, b_diastolic = 76,
               b_notes = Some ''''\<rparr>], seq = 1\<rparr>\<rparr>"
proof -
  have iso: "isoformat \<lparr>year = 2024, month = 3, day = 9\<rparr> = ''2024-03-09''"
    by code_simp
  show ?thesis
    by (simp add: run_script_def weight_form_def bp_form_def insert_weight_def insert_bp_def
        init_db_def connect_def commit_def close_def no_file_def next_weight_id_def
        next_bp_id_def iso Let_def)
qed

theorem notes_never_null_witness:
  "(\<exists>r. weight_form \<lparr>wi_entry_date = \<lparr>year = 2024, month = 3, day = 9\<rparr>, wi_weight = 72.5,
            wi_bodyfat = 0, wi_notes = '''', wi_add_button = True\<rparr> (init_db no_file) =
          Inr ((init_db no_file)\<lparr>weights := Some \<lparr>rows = [r], seq = w_id r\<rparr>\<rparr>, Some Success)
        \<and> w_notes r = Some '''')
   \<and> (\<exists>r. log_form \<lparr>wi_entry_date = \<lparr>year = 2024, month = 3, day = 9\<rparr>, wi_weight = 72.5,
            wi_bodyfat = 0, wi_notes = '''', wi_add_button = True\<rparr> [] = ([r], Some Success)
        \<and> l_Notes r = Some '''')
   \<and> (\<exists>r. bp_form \<lparr>bi_entry_date = \<lparr>year = 2024, month = 3, day = 9\<rparr>, bi_systolic = 118,
            bi_diastolic = 76, bi_notes = '''', bi_add_bp_button = True\<rparr> (init_db no_file) =
          Inr ((init_db no_file)\<lparr>blood_pressure := Some \<lparr>rows = [r], seq = b_id r\<rparr>\<rparr>,
               Some Success)
        \<and> b_notes r = Some '''')
   \<and> (\<exists>db tw tb.
        run_scripts
          [WeightRun \<lparr>wi_entry_date = \<lparr>year = 2024, month = 3, day = 9\<rparr>, wi_weight = 72.5,
              wi_bodyfat = 0, wi_notes = '''', wi_add_button = True\<rparr>,
           BpRun \<lparr>bi_entry_date = \<lparr>year = 2024, month = 3, day = 9\<rparr>, bi_systolic = 118,
              bi_diastolic = 76, bi_notes = '''', bi_add_bp_button = True\<rparr>] no_file = Inr db
        \<and> weights db = Some tw \<and> blood_pressure db = Some tb
        \<and> length (rows tw) = 1 \<and> length (rows tb) = 1
        \<and> list_all (\<lambda>r. w_notes r = Some '''') (rows tw)
        \<and> list_all (\<lambda>r. b_notes r = Some '''') (rows tb))
   \<and> (\<exists>lg.
        tracker_runs stable_engine
          [\<lparr>wi_entry_date = \<lparr>year = 2024, month = 3, day = 9\<rparr>, wi_weight = 72.5,
              wi_bodyfat = 0, wi_notes = '''', wi_add_button = True\<rparr>,
           \<lparr>wi_entry_date = \<lparr>year = 2024, month = 3, day = 9\<rparr>, wi_weight = 72,
              wi_bodyfat = 18.5, wi_notes = ''evening'', wi_add_button = True\<rparr>] None = Some lg
        \<and> length lg = 2
        \<and> list_all (\<lambda>r. l_Notes r = Some '''' \<or> l_Notes r = Some ''evening'') lg)"
proof -
  let ?inp = "\<lparr>wi_entry_date = \<lparr>year = 2024, month = 3, day = 9\<rparr>, wi_weight = 72.5,
            wi_bodyfat = 0, wi_notes = '''', wi_add_button = True\<rparr>"
  let ?binp = "\<lparr>bi_entry_date = \<lparr>year = 2024, month = 3, day = 9\<rparr>, bi_systolic = 118,
            bi_diastolic = 76, bi_notes = '''', bi_add_bp_button = True\<rparr>"
  let ?tw = "\<lparr>rows =
            [\<lparr>w_id = 1, w_date = ''2024-03-09'', w_weight = 72.5, w_body_fat = None,
               w_notes = Some ''''\<rparr>], seq = 1\<rparr>"
  let ?tb = "\<lparr>rows =
            [\<lparr>b_id = 1, b_date = ''2024-03-09'', b_systolic = 118, b_diastolic = 76,
               b_notes = Some ''''\<rparr>], seq = 1\<rparr>"
  let ?db = "\<lparr>weights = Some ?tw, blood_pressure = Some ?tb\<rparr>"
  let ?lg = "[\<lparr>l_Date = \<lparr>year = 2024, month = 3, day = 9\<rparr>, l_Weight = 72.5, l_BodyFat = None,
              l_Notes = Some ''''\<rparr>,
           \<lparr>l_Date = \<lparr>year = 2024, month = 3, day = 9\<rparr>, l_Weight = 72,
              l_BodyFat = Some 18.5, l_Notes = Some ''evening''\<rparr>]"
  have w1: "wi_add_button ?inp" and w2: "wi_weight ?inp > 0" by simp_all
  have b1: "bi_add_bp_button ?binp" and b2: "bi_systolic ?binp > 0"
    and b3: "bi_diastolic ?binp > 0" by simp_all
  have e1: "weights (init_db no_file) = Some \<lparr>rows = [], seq = 0\<rparr>"
    and e2: "blood_pressure (init_db no_file) = Some \<lparr>rows = [], seq = 0\<rparr>"
    by (simp_all add: init_db_tables no_file_def)
  have hw: "weights ?db = Some ?tw" and hb: "blood_pressure ?db = Some ?tb" by simp_all
  note th = notes_never_null [where inp = ?inp and ?db0.0 = "init_db no_file"
      and tw = "\<lparr>rows = [], seq = 0\<rparr>" and ?lg0.0 = "[]" and binp = ?binp
      and tb = "\<lparr>rows = [], seq = 0\<rparr>" and db = ?db and sv = stable_engine and lg = ?lg]
  note a = th [THEN conjunct1, rule_format, OF w1 w2 e1]
  note b = th [THEN conjunct2, THEN conjunct1, rule_format, OF b1 b2 b3 e2]
  note c = th [THEN conjunct2, THEN conjunct2, THEN conjunct1, rule_format,
      OF run_weight_then_bp]
  note d = th [THEN conjunct2, THEN conjunct2, THEN conjunct2, rule_format,
      OF track_two_weights]
  have "\<exists>r. weight_form ?inp (init_db no_file) =
          Inr ((init_db no_file)\<lparr>weights := Some \<lparr>rows = [r], seq = w_id r\<rparr>\<rparr>, Some Success)
        \<and> w_notes r = Some ''''"
    using a [THEN conjunct1] by auto
  moreover have "\<exists>r. log_form ?inp [] = ([r], Some Success) \<and> l_Notes r = Some ''''"
    using a [THEN conjunct2] by auto
  moreover have "\<exists>r. bp_form ?binp (init_db no_file) =
          Inr ((init_db no_file)\<lparr>blood_pressure := Some \<lparr>rows = [r], seq = b_id r\<rparr>\<rparr>,
               Some Success)
        \<and> b_notes r = Some ''''"
    using b by auto
  moreover have "list_all (\<lambda>r. w_notes r = Some '''') (rows ?tw)"
    using c [THEN conjunct1, rule_format, OF hw] by (auto simp add: list_all_iff)
  moreover have "list_all (\<lambda>r. b_notes r = Some '''') (rows ?tb)"
    using c [THEN conjunct2, rule_format, OF hb] by (auto simp add: list_all_iff)
  moreover have "list_all (\<lambda>r. l_Notes r = Some '''' \<or> l_Notes r = Some ''evening'') ?lg"
    using d by (auto simp add: list_all_iff)
  ultimately show ?thesis
    using run_weight_then_bp track_two_weights hw hb
    by (intro conjI exI [of _ ?db] exI [of _ ?tw] exI [of _ ?tb] exI [of _ ?lg]) simp_all
qed

section \<open>The claim on the rolling trend\<close>

text \<open>
  C5. The trend column of the prototype is the rolling mean with window 3 of the weight
  column of the frame sorted by date. It has one entry for each entry of the input, at
  the same position; positions 0 and 1 carry no value, and every later position \<open>i\<close>
  carries the mean of the weights at positions \<open>i - 2\<close>, \<open>i - 1\<close> and \<open>i\<close>. Over
  70, 71, 72, 73 this is: no value, no value, 71, 72. Floats are idealised as reals.
\<close>

theorem rolling_trend_window3:
  "length (rolling_mean 3 xs) = length xs
   \<and> (\<forall>i<length xs. rolling_mean 3 xs ! i =
         (if i < 2 then None else Some ((xs ! (i - 2) + xs ! (i - 1) + xs ! i) / 3)))
   \<and> map t_Trend (with_trend data) = rolling_mean 3 (map l_Weight data)
   \<and> map t_Weight (with_trend data) = map l_Weight data"
  by (simp add: length_rolling_mean rolling_mean_3_nth with_trend_columns)

theorem rolling_trend_window3_witness:
  "length (rolling_mean 3 [70, 71, 72, 73]) = 4
   \<and> rolling_mean 3 [70, 71, 72, 73] ! 0 = None
   \<and> rolling_mean 3 [70, 71, 72, 73] ! 1 = None
   \<and> rolling_mean 3 [70, 71, 72, 73] ! 2 = Some 71
   \<and> rolling_mean 3 [70, 71, 72, 73] ! 3 = Some 72"
proof -
  note th = rolling_trend_window3 [of "[70, 71, 72, 73]" "[]"]
  note n = th [THEN conjunct2, THEN conjunct1, rule_format]
  have "length (rolling_mean 3 [70, 71, 72, 73]) = 4"
    using th [THEN conjunct1] by simp
  moreover have "rolling_mean 3 [70, 71, 72, 73] ! 0 = None"
    using n [of 0] by simp
  moreover have "rolling_mean 3 [70, 71, 72, 73] ! 1 = None"
    using n [of 1] by simp
  moreover have "rolling_mean 3 [70, 71, 72, 73] ! 2 = Some 71"
    using n [of 2] by simp
  moreover have "rolling_mean 3 [70, 71, 72, 73] ! 3 = Some 72"
    using n [of 3] by simp
  ultimately show ?thesis by blast
qed

section \<open>The claim on the order of retrieval\<close>




section \<open>The claim on persistence\<close>

lemma weight_form_keeps_tables:
  assumes "weight_form inp (init_db fl) = Inr (db, msg)"
  shows "\<exists>tw tb. weights db = Some tw \<and> blood_pressure db = Some tb"
proof -
  have "run_script (WeightRun inp) fl = Inr db"
    using assms by (simp add: run_script_def)
  then show ?thesis
    unfolding run_script_weight [OF weights_init_db]
    using weights_init_db [of fl] blood_pressure_init_db [of fl]
    by (auto split: if_splits)
qed

lemma bp_form_keeps_tables:
  assumes "bp_form inp (init_db fl) = Inr (db, msg)"
  shows "\<exists>tw tb. weights db = Some tw \<and> blood_pressure db = Some tb"
proof -
  have "run_script (BpRun inp) fl = Inr db"
    using assms by (simp add: run_script_def)
  then show ?thesis
    unfolding run_script_bp [OF blood_pressure_init_db]
    using weights_init_db [of fl] blood_pressure_init_db [of fl]
    by (auto split: if_splits)
qed

lemma weight_section_restart:
  assumes run: "weight_section eng inp fl = Inr (db, msg, pg)" and idle: "\<not> wi_add_button idle"
  shows "init_db db = db \<and> load_weights eng (init_db db) = load_weights eng db
         \<and> weight_section eng idle db = Inr (db, None, pg)"
proof -
  from run obtain loaded where form: "weight_form inp (init_db fl) = Inr (db, msg)"
    and load: "load_weights eng db = Inr loaded" and page: "weight_display loaded = Inr pg"
    by (auto simp add: weight_section_def split: sum.splits)
  obtain tw tb where "weights db = Some tw" "blood_pressure db = Some tb"
    using weight_form_keeps_tables [OF form] by blast
  then have same: "init_db db = db" by (rule init_db_existing)
  have "weight_section eng idle db = Inr (db, None, pg)"
    by (simp add: weight_section_def same weight_form_idle [OF idle] load page)
  then show ?thesis using same by simp
qed

lemma bp_section_restart:
  assumes run: "bp_section eng inp fl = Inr (db, msg, pg)" and idle: "\<not> bi_add_bp_button idle"
  shows "init_db db = db \<and> load_bp eng (init_db db) = load_bp eng db
         \<and> bp_section eng idle db = Inr (db, None, pg)"
proof -
  from run obtain loaded where form: "bp_form inp (init_db fl) = Inr (db, msg)"
    and load: "load_bp eng db = Inr loaded" and page: "bp_display loaded = Inr pg"
    by (auto simp add: bp_section_def split: sum.splits)
  obtain tw tb where "weights db = Some tw" "blood_pressure db = Some tb"
    using bp_form_keeps_tables [OF form] by blast
  then have same: "init_db db = db" by (rule init_db_existing)
  have "bp_form idle db = Inr (db, None)"
    using idle by (simp add: bp_form_reject)
  then have "bp_section eng idle db = Inr (db, None, pg)"
    by (simp add: bp_section_def same load page)
  then show ?thesis using same by simp
qed

lemma insert_weight_durable:
  assumes "insert_weight d w bf n db0 = Inr db1"
  shows "\<exists>t. weights db0 = Some t \<and>
           load_weights eng (init_db db1) =
             Inr (eng w_date (rows t @ [\<lparr>w_id = next_weight_id t, w_date = d, w_weight = w,
                                         w_body_fat = bf, w_notes = n\<rparr>]))"
proof (cases "weights db0")
  case None
  then show ?thesis using assms by (simp add: insert_weight_def connect_def)
next
  case (Some t)
  then have "weights db1 = Some \<lparr>rows = rows t @ [\<lparr>w_id = next_weight_id t, w_date = d,
                w_weight = w, w_body_fat = bf, w_notes = n\<rparr>], seq = next_weight_id t\<rparr>"
    using assms by (auto simp add: insert_weight_Some)
  then show ?thesis
    using Some by (simp add: load_weights_def weights_init_db)
qed

lemma insert_bp_durable:
  assumes "insert_bp d s di n db0 = Inr db1"
  shows "\<exists>t. blood_pressure db0 = Some t \<and>
           load_bp eng (init_db db1) =
             Inr (eng b_date (rows t @ [\<lparr>b_id = next_bp_id t, b_date = d, b_systolic = s,
                                         b_diastolic = di, b_notes = n\<rparr>]))"
proof (cases "blood_pressure db0")
  case None
  then show ?thesis using assms by (simp add: insert_bp_def connect_def)
next
  case (Some t)
  then have "blood_pressure db1 = Some \<lparr>rows = rows t @ [\<lparr>b_id = next_bp_id t, b_date = d,
                b_systolic = s, b_diastolic = di, b_notes = n\<rparr>], seq = next_bp_id t\<rparr>"
    using assms by (auto simp add: insert_bp_Some)
  then show ?thesis
    using Some by (simp add: load_bp_def blood_pressure_init_db)
qed

text \<open>
  C2, as the code has it. For the SQLite file of health\_tracker.py: the file a run
  leaves is unchanged by the \<^verbatim>\<open>init_db()\<close> of the next process, the next process loads
  the same sequence, and a run of it in which the button is not pressed shows the same
  page and leaves the same file. Once \<^verbatim>\<open>insert_weight\<close> or \<^verbatim>\<open>insert_bp\<close> has
  returned, the row is in the file: the next process loads the earlier rows and the new
  one. The log of weight\_tracker.py is not persisted and is not part of this statement.
\<close>

theorem sqlite_file_round_trip:
  "(weight_section engw inp fl = Inr (db, msg, pg) \<longrightarrow> \<not> wi_add_button idle \<longrightarrow>
       init_db db = db \<and> load_weights engw (init_db db) = load_weights engw db
       \<and> weight_section engw idle db = Inr (db, None, pg))
   \<and> (bp_section engb binp fl = Inr (db, msg, bpg) \<longrightarrow> \<not> bi_add_bp_button bidle \<longrightarrow>
       init_db db = db \<and> load_bp engb (init_db db) = load_bp engb db
       \<and> bp_section engb bidle db = Inr (db, None, bpg))
   \<and> (insert_weight d w bf n db0 = Inr db1 \<longrightarrow>
        (\<exists>t. weights db0 = Some t \<and>
           load_weights engw (init_db db1) =
             Inr (engw w_date (rows t @ [\<lparr>w_id = next_weight_id t, w_date = d, w_weight = w,
                                          w_body_fat = bf, w_notes = n\<rparr>]))))
   \<and> (insert_bp d s di n db0 = Inr db2 \<longrightarrow>
        (\<exists>t. blood_pressure db0 = Some t \<and>
           load_bp engb (init_db db2) =
             Inr (engb b_date (rows t @ [\<lparr>b_id = next_bp_id t, b_date = d, b_systolic = s,
                                          b_diastolic = di, b_notes = n\<rparr>]))))"
  using weight_section_restart [of engw inp fl db msg pg idle]
    bp_section_restart [of engb binp fl db msg bpg bidle]
    insert_weight_durable [of d w bf n db0 db1 engw]
    insert_bp_durable [of d s di n db0 db2 engb]
  by blast

lemma weight_section_first_entry:
  "\<exists>db msg pg.
     weight_section stable_engine
       \<lparr>wi_entry_date = \<lparr>year = 2024, month = 3, day = 9\<rparr>, wi_weight = 72.5,
          wi_bodyfat = 0, wi_notes = '''', wi_add_button = True\<rparr> no_file = Inr (db, msg, pg)"
proof -
  have iso: "isoformat \<lparr>year = 2024, month = 3, day = 9\<rparr> = ''2024-03-09''"
    by code_simp
  have conv: "to_datetime ''2024-03-09'' = Some \<lparr>year = 2024, month = 3, day = 9\<rparr>"
    by code_simp
  show ?thesis
    by (simp add: weight_section_def weight_form_def insert_weight_def init_db_def connect_def
        commit_def close_def no_file_def next_weight_id_def iso Let_def load_weights_def
        stable_engine_def weight_display_def weight_frame_def conv)
qed

lemma bp_section_first_entry:
  "\<exists>db msg pg.
     bp_section stable_engine
       \<lparr>bi_entry_date = \<lparr>year = 2024, month = 3, day = 9\<rparr>, bi_systolic = 118,
          bi_diastolic = 76, bi_notes = '''', bi_add_bp_button = True\<rparr> no_file
       = Inr (db, msg, pg)"
proof -
  have iso: "isoformat \<lparr>year = 2024, month = 3, day = 9\<rparr> = ''2024-03-09''"
    by code_simp
  have conv: "to_datetime ''2024-03-09'' = Some \<lparr>year = 2024, month = 3, day = 9\<rparr>"
    by code_simp
  show ?thesis
    by (simp add: bp_section_def bp_form_def insert_bp_def init_db_def connect_def
        commit_def close_def no_file_def next_bp_id_def iso Let_def load_bp_def
        stable_engine_def bp_display_def bp_frame_def conv)
qed

lemma insert_weight_first_entry:
  "insert_weight ''2024-03-09'' 72.5 None (Some '''') (init_db no_file)
     = Inr \<lparr>weights = Some \<lparr>rows =
              [\<lparr>w_id = 1, w_date = ''2024-03-09'', w_weight = 72.5, w_body_fat = None,
                 w_notes = Some ''''\<rparr>], seq = 1\<rparr>,
            blood_pressure = Some \<lparr>rows = [], seq = 0\<rparr>\<rparr>"
  by (simp add: insert_weight_def init_db_def connect_def commit_def close_def no_file_def
      next_weight_id_def Let_def)

lemma insert_bp_first_entry:
  "insert_bp ''2024-03-09'' 118 76 (Some '''') (init_db no_file)
     = Inr \<lparr>weights = Some \<lparr>rows = [], seq = 0\<rparr>,
            blood_pressure = Some \<lparr>rows =
              [\<lparr>b_id = 1, b_date = ''2024-03-09'', b_systolic = 118, b_diastolic = 76,
                 b_notes = Some ''''\<rparr>], seq = 1\<rparr>\<rparr>"
  by (simp add: insert_bp_def init_db_def connect_def commit_def close_def no_file_def
      next_bp_id_def Let_def)

theorem sqlite_file_round_trip_witness:
  "(\<exists>db msg pg.
      weight_section stable_engine
        \<lparr>wi_entry_date = \<lparr>year = 2024, month = 3, day = 9\<rparr>, wi_weight = 72.5,
           wi_bodyfat = 0, wi_notes = '''', wi_add_button = True\<rparr> no_file = Inr (db, msg, pg)
      \<and> init_db db = db
      \<and> weight_section stable_engine
          \<lparr>wi_entry_date = \<lparr>year = 2024, month = 3, day = 10\<rparr>, wi_weight = 0,
             wi_bodyfat = 0, wi_notes = '''', wi_add_button = False\<rparr> db = Inr (db, None, pg))
   \<and> (\<exists>db msg pg.
      bp_section stable_engine
        \<lparr>bi_entry_date = \<lparr>year = 2024, month = 3, day = 9\<rparr>, bi_systolic = 118,
           bi_diastolic = 76, bi_notes = '''', bi_add_bp_button = True\<rparr> no_file
        = Inr (db, msg, pg)
      \<and> init_db db = db
      \<and> bp_section stable_engine
          \<lparr>bi_entry_date = \<lparr>year = 2024, month = 3, day = 10\<rparr>, bi_systolic = 0,
             bi_diastolic = 0, bi_notes = '''', bi_add_bp_button = False\<rparr> db
          = Inr (db, None, pg))
   \<and> load_weights stable_engine
        (init_db \<lparr>weights = Some \<lparr>rows =
              [\<lparr>w_id = 1, w_date = ''2024-03-09'', w_weight = 72.5, w_body_fat = None,
                 w_notes = Some ''''\<rparr>], seq = 1\<rparr>,
            blood_pressure = Some \<lparr>rows = [], seq = 0\<rparr>\<rparr>)
       = Inr [\<lparr>w_id = 1, w_date = ''2024-03-09'', w_weight = 72.5, w_body_fat = None,
                 w_notes = Some ''''\<rparr>]
   \<and> load_bp stable_engine
        (init_db \<lparr>weights = Some \<lparr>rows = [], seq = 0\<rparr>,
            blood_pressure = Some \<lparr>rows =
              [\<lparr>b_id = 1, b_date = ''2024-03-09'', b_systolic = 118, b_diastolic = 76,
                 b_notes = Some ''''\<rparr>], seq = 1\<rparr>\<rparr>)
       = Inr [\<lparr>b_id = 1, b_date = ''2024-03-09'', b_systolic = 118, b_diastolic = 76,
                 b_notes = Some ''''\<rparr>]"
proof -
  let ?winp = "\<lparr>wi_entry_date = \<lparr>year = 2024, month = 3, day = 9\<rparr>, wi_weight = 72.5,
           wi_bodyfat = 0, wi_notes = '''', wi_add_button = True\<rparr>"
  let ?widle = "\<lparr>wi_entry_date = \<lparr>year = 2024, month = 3, day = 10\<rparr>, wi_weight = 0,
             wi_bodyfat = 0, wi_notes = '''', wi_add_button = False\<rparr>"
  let ?binp = "\<lparr>bi_entry_date = \<lparr>year = 2024, month = 3, day = 9\<rparr>, bi_systolic = 118,
           bi_diastolic = 76, bi_notes = '''', bi_add_bp_button = True\<rparr>"
  let ?bidle = "\<lparr>bi_entry_date = \<lparr>year = 2024, month = 3, day = 10\<rparr>, bi_systolic = 0,
             bi_diastolic = 0, bi_notes = '''', bi_add_bp_button = False\<rparr>"
  have wi: "\<not> wi_add_button ?widle" and bi: "\<not> bi_add_bp_button ?bidle" by simp_all
  obtain db msg pg where w: "weight_section stable_engine ?winp no_file = Inr (db, msg, pg)"
    using weight_section_first_entry by blast
  obtain dbb msgb pgb where b: "bp_section stable_engine ?binp no_file = Inr (dbb, msgb, pgb)"
    using bp_section_first_entry by blast
  note thw = sqlite_file_round_trip [where engw = stable_engine and inp = ?winp
      and fl = no_file and db = db and msg = msg and pg = pg and idle = ?widle,
      THEN conjunct1, rule_format, OF w wi]
  note thb = sqlite_file_round_trip [where engb = stable_engine and binp = ?binp
      and fl = no_file and db = dbb and msg = msgb and bpg = pgb and bidle = ?bidle,
      THEN conjunct2, THEN conjunct1, rule_format, OF b bi]
  note thi = sqlite_file_round_trip [where engw = stable_engine and d = "''2024-03-09''"
      and w = "72.5" and bf = None and n = "Some ''''" and ?db0.0 = "init_db no_file",
      THEN conjunct2, THEN conjunct2, THEN conjunct1, rule_format, OF insert_weight_first_entry]
  note thj = sqlite_file_round_trip [where engb = stable_engine and d = "''2024-03-09''"
      and s = 118 and di = 76 and n = "Some ''''" and ?db0.0 = "init_db no_file",
      THEN conjunct2, THEN conjunct2, THEN conjunct2, rule_format, OF insert_bp_first_entry]
  have "\<exists>db msg pg. weight_section stable_engine ?winp no_file = Inr (db, msg, pg)
      \<and> init_db db = db \<and> weight_section stable_engine ?widle db = Inr (db, None, pg)"
    using w thw by blast
  moreover have "\<exists>db msg pg. bp_section stable_engine ?binp no_file = Inr (db, msg, pg)
      \<and> init_db db = db \<and> bp_section stable_engine ?bidle db = Inr (db, None, pg)"
    using b thb by blast
  moreover have "load_weights stable_engine
        (init_db \<lparr>weights = Some \<lparr>rows =
              [\<lparr>w_id = 1, w_date = ''2024-03-09'', w_weight = 72.5, w_body_fat = None,
                 w_notes = Some ''''\<rparr>], seq = 1\<rparr>,
            blood_pressure = Some \<lparr>rows = [], seq = 0\<rparr>\<rparr>)
       = Inr [\<lparr>w_id = 1, w_date = ''2024-03-09'', w_weight = 72.5, w_body_fat = None,
                 w_notes = Some ''''\<rparr>]"
    using thi by (auto simp add: init_db_tables no_file_def next_weight_id_def stable_engine_def)
  moreover have "load_bp stable_engine
        (init_db \<lparr>weights = Some \<lparr>rows = [], seq = 0\<rparr>,
            blood_pressure = Some \<lparr>rows =
              [\<lparr>b_id = 1, b_date = ''2024-03-09'', b_systolic = 118, b_diastolic = 76,
                 b_notes = Some ''''\<rparr>], seq = 1\<rparr>\<rparr>)
       = Inr [\<lparr>b_id = 1, b_date = ''2024-03-09'', b_systolic = 118, b_diastolic = 76,
                 b_notes = Some ''''\<rparr>]"
    using thj by (auto simp add: init_db_tables no_file_def next_bp_id_def stable_engine_def)
  ultimately show ?thesis by blast
qed

text \<open>
  The prototype, by contrast: after one accepted entry the session holds the row; a run
  in which the button is not pressed shows it; after a restart the same run starts from
  an empty log and shows the no-data state.
\<close>

theorem session_log_lost_on_restart:
  "fst (weight_tracker stable_engine
          \<lparr>wi_entry_date = \<lparr>year = 2024, month = 3, day = 9\<rparr>, wi_weight = 72.5,
             wi_bodyfat = 0, wi_notes = '''', wi_add_button = True\<rparr> None)
     = Some [\<lparr>l_Date = \<lparr>year = 2024, month = 3, day = 9\<rparr>, l_Weight = 72.5,
               l_BodyFat = None, l_Notes = Some ''''\<rparr>]
   \<and> fst (weight_tracker stable_engine
          \<lparr>wi_entry_date = \<lparr>year = 2024, month = 3, day = 10\<rparr>, wi_weight = 0,
             wi_bodyfat = 0, wi_notes = '''', wi_add_button = False\<rparr>
          (Some [\<lparr>l_Date = \<lparr>year = 2024, month = 3, day = 9\<rparr>, l_Weight = 72.5,
               l_BodyFat = None, l_Notes = Some ''''\<rparr>]))
     = Some [\<lparr>l_Date = \<lparr>year = 2024, month = 3, day = 9\<rparr>, l_Weight = 72.5,
               l_BodyFat = None, l_Notes = Some ''''\<rparr>]
   \<and> weight_tracker stable_engine
          \<lparr>wi_entry_date = \<lparr>year = 2024, month = 3, day = 10\<rparr>, wi_weight = 0,
             wi_bodyfat = 0, wi_notes = '''', wi_add_button = False\<rparr>
          (restart (Some [\<lparr>l_Date = \<lparr>year = 2024, month = 3, day = 9\<rparr>, l_Weight = 72.5,
               l_BodyFat = None, l_Notes = Some ''''\<rparr>]))
     = (Some [], None, NoData)"
  by (simp add: weight_tracker_def log_form_def restart_def stable_engine_def
      tracker_display_def Let_def)

section \<open>The claim on the CSV export\<close>











end
